theory Spec2Isabelle
  imports Main "HOL-Library.Word" "HOL-Library.List_Lexorder" "HOL-Library.Char_ord"
begin

unbundle bit_operations_syntax

section \<open>Keystore V4 decryption (package cryptor)\<close>

text \<open>
  A shallow embedding of \<^verbatim>\<open>Decrypt\<close> and \<^verbatim>\<open>decryptNorm\<close> and of the keystore
  structures of \<^verbatim>\<open>cryptor.go\<close>. A Go \<^verbatim>\<open>string\<close> is a \<^typ>\<open>string\<close> (a list of 8-bit
  characters, as Go strings are byte sequences), a \<^verbatim>\<open>[]byte\<close> is a list of 8-bit words,
  a Go \<^verbatim>\<open>int\<close> is an \<^typ>\<open>int\<close> (the 64-bit range is checked where JSON numbers are
  decoded), and a pointer that may be nil is an \<^typ>\<open>'a option\<close>.
\<close>

type_synonym byte = "8 word"
type_synonym bytes = "byte list"

definition bytes_of_string :: "string \<Rightarrow> bytes" where
  \<comment> \<open>the conversion \<^verbatim>\<open>[]byte(s)\<close>\<close>
  "bytes_of_string s = map of_char s"

subsection \<open>The keystore structures\<close>

record ksKDFParams =
  Salt :: string
  DKLen :: int
  N :: int
  P :: int
  R :: int
  C :: int
  PRF :: string

record ksKDF =
  Function :: string
  Params :: "ksKDFParams option"
  Message :: string

text \<open>
  The \<^verbatim>\<open>map[string]interface{}\<close> of a checksum's parameters holds arbitrary JSON. A JSON
  value, as \<^verbatim>\<open>json.Marshal\<close> writes the Go value held in an \<^verbatim>\<open>interface{}\<close>: a number
  is kept as its literal (an integer literal, or one with a fraction or an exponent),
  a Go map is the list of its entries, and \<open>JUnsupported\<close> is a Go value that
  \<^verbatim>\<open>json.Marshal\<close> rejects (a channel, a function, a NaN).
\<close>

datatype jvalue =
    JNull
  | JBool bool
  | JInt int
  | JFloat string
  | JString string
  | JArray "jvalue list"
  | JObject "(string \<times> jvalue) list"
  | JUnsupported

record ksChecksum =
  Function :: string
  Params :: "(string \<times> jvalue) list option"
  Message :: string

record ksCipherParams =
  IV :: string

record ksCipher =
  Function :: string
  Params :: "ksCipherParams option"
  Message :: string

record keystoreV4 =
  KDF :: "ksKDF option"
  Checksum :: "ksChecksum option"
  Cipher :: "ksCipher option"

subsection \<open>Errors and panics\<close>

text \<open>
  The errors \<^verbatim>\<open>Decrypt\<close> returns are \<^verbatim>\<open>errors.New\<close> and \<^verbatim>\<open>fmt.Errorf\<close> values; each
  constructor stands for one message of the source:
  \<^item> \<open>NoData\<close>: "no data supplied";
  \<^item> \<open>MalformedRecord\<close>: "failed to parse keystore";
  \<^item> \<open>MissingChecksum\<close>: "no checksum"; \<open>MissingCipher\<close>: "no cipher";
  \<^item> \<open>InvalidKDFSalt\<close>: "invalid KDF salt";
  \<^item> \<open>InvalidKDFParameters\<close>: "invalid KDF parameters";
  \<^item> \<open>UnsupportedPRF prf\<close>: "unsupported PBKDF2 PRF %q";
  \<^item> \<open>UnsupportedKDF f\<close>: "unsupported KDF %q";
  \<^item> \<open>DerivedKeyTooShort\<close>: "decryption key must be at least 32 bytes";
  \<^item> \<open>InvalidCipherMessage\<close>: "invalid cipher message";
  \<^item> \<open>InvalidChecksumEncoding\<close>: "invalid checksum message";
  \<^item> \<open>ChecksumMismatch\<close>: "invalid checksum";
  \<^item> \<open>InvalidIV\<close>: "invalid IV";
  \<^item> \<open>UnsupportedCipher f\<close>: "unsupported cipher %q";
  \<^item> \<open>KeySizeError n\<close>: the error of \<^verbatim>\<open>aes.NewCipher\<close> for a key of \<open>n\<close> bytes,
    which \<^verbatim>\<open>decryptNorm\<close> returns as it is.
  A panic is not an error value: it aborts the call.
\<close>

datatype error =
    NoData
  | MalformedRecord
  | MissingChecksum
  | MissingCipher
  | InvalidKDFSalt
  | InvalidKDFParameters
  | UnsupportedPRF string
  | UnsupportedKDF string
  | DerivedKeyTooShort
  | InvalidCipherMessage
  | InvalidChecksumEncoding
  | ChecksumMismatch
  | InvalidIV
  | UnsupportedCipher string
  | KeySizeError nat

datatype panic =
    NilPointerDereference
  | IVLengthNotBlockSize
  | OutputSmallerThanInput
  | KDFPanic

datatype fault = Err error | Panic panic

subsection \<open>encoding/hex\<close>

definition fromHexChar :: "char \<Rightarrow> byte option" where
  "fromHexChar c =
     (let n = (of_char c :: nat) in
      if 48 \<le> n \<and> n \<le> 57 then Some (of_nat (n - 48))
      else if 97 \<le> n \<and> n \<le> 102 then Some (of_nat (n - 97 + 10))
      else if 65 \<le> n \<and> n \<le> 70 then Some (of_nat (n - 65 + 10))
      else None)"

text \<open>
  \<^verbatim>\<open>hex.DecodeString\<close>: \<open>None\<close> where it returns an error (a character that is no
  hexadecimal digit, or an odd length); the callers drop the bytes decoded so far.
\<close>

fun hex_DecodeString :: "string \<Rightarrow> bytes option" where
  "hex_DecodeString [] = Some []"
| "hex_DecodeString [p] = None"
| "hex_DecodeString (p # q # cs) =
     (case fromHexChar p of
        None \<Rightarrow> None
      | Some a \<Rightarrow>
          (case fromHexChar q of
             None \<Rightarrow> None
           | Some b \<Rightarrow>
               (case hex_DecodeString cs of
                  None \<Rightarrow> None
                | Some bs \<Rightarrow> Some ((push_bit 4 a OR b) # bs))))"

definition hexDigit :: "byte \<Rightarrow> char" where
  \<comment> \<open>the table \<^verbatim>\<open>"0123456789abcdef"\<close> of \<^verbatim>\<open>hex.EncodeToString\<close>\<close>
  "hexDigit b = ''0123456789abcdef'' ! unat b"

fun hex_EncodeToString :: "bytes \<Rightarrow> string" where
  "hex_EncodeToString [] = []"
| "hex_EncodeToString (b # bs) =
     hexDigit (drop_bit 4 b) # hexDigit (b AND 15) # hex_EncodeToString bs"

subsection \<open>The library functions the decryption calls\<close>

text \<open>
  The passphrase normalisations (functions of this package that are not in the two
  source files) and the cryptographic primitives of the Go libraries are parameters:
  \<^item> \<open>normPassphrase\<close>, \<open>altNormPassphrase\<close>: the two normalisations;
  \<^item> \<open>sha256_Sum\<close>: the SHA-256 digest of the bytes written to \<^verbatim>\<open>sha256.New()\<close>
    (\<^verbatim>\<open>Write\<close> of a hash never returns an error, so lines 97 to 102 have no failing
    branch);
  \<^item> \<open>scrypt_Key password salt N r p keyLen\<close>: \<^verbatim>\<open>scrypt.Key\<close>, which returns a key or
    an error, or panics;
  \<^item> \<open>pbkdf2_Key password salt iter keyLen\<close>: \<^verbatim>\<open>pbkdf2.Key\<close> with \<^verbatim>\<open>sha256.New\<close>, which
    returns a key or panics;
  \<^item> \<open>aes_ctr_keystream key iv i\<close>: byte \<open>i\<close> of the AES counter-mode key stream
    for a key and a 16-byte initial counter.
\<close>

record library =
  normPassphrase :: "string \<Rightarrow> string"
  altNormPassphrase :: "string \<Rightarrow> string"
  sha256_Sum :: "bytes \<Rightarrow> bytes"
  scrypt_Key :: "bytes \<Rightarrow> bytes \<Rightarrow> int \<Rightarrow> int \<Rightarrow> int \<Rightarrow> int \<Rightarrow> fault + bytes"
  pbkdf2_Key :: "bytes \<Rightarrow> bytes \<Rightarrow> int \<Rightarrow> int \<Rightarrow> panic + bytes"
  aes_ctr_keystream :: "bytes \<Rightarrow> bytes \<Rightarrow> nat \<Rightarrow> byte"

text \<open>
  \<^verbatim>\<open>aes.NewCipher\<close> accepts keys of 16, 24 and 32 bytes; the cipher it returns is
  represented by its key. \<^verbatim>\<open>cipher.NewCTR\<close> panics unless the IV has the block size of
  16 bytes. \<^verbatim>\<open>XORKeyStream dst src\<close> panics when \<open>dst\<close> is shorter than \<open>src\<close>, and
  otherwise overwrites the first \<open>length src\<close> bytes of \<open>dst\<close>.
\<close>

definition aes_NewCipher :: "bytes \<Rightarrow> error + bytes" where
  "aes_NewCipher key =
     (if length key = 16 \<or> length key = 24 \<or> length key = 32 then Inr key
      else Inl (KeySizeError (length key)))"

definition cipher_NewCTR :: "bytes \<Rightarrow> bytes \<Rightarrow> panic + bytes \<times> bytes" where
  "cipher_NewCTR block iv =
     (if length iv \<noteq> 16 then Inl IVLengthNotBlockSize else Inr (block, iv))"

definition XORKeyStream :: "library \<Rightarrow> bytes \<times> bytes \<Rightarrow> bytes \<Rightarrow> bytes \<Rightarrow> panic + bytes" where
  "XORKeyStream L stream dst src =
     (if length dst < length src then Inl OutputSmallerThanInput
      else Inr (map2 (XOR) src
                  (map (aes_ctr_keystream L (fst stream) (snd stream)) [0..<length src])
                @ drop (length src) dst))"

subsection \<open>decryptNorm\<close>

text \<open>Lines 60 to 86: the decryption key.\<close>

definition decryptionKey :: "library \<Rightarrow> keystoreV4 \<Rightarrow> bytes \<Rightarrow> fault + bytes" where
  "decryptionKey L ks normedPassphrase =
     (case KDF ks of
        None \<Rightarrow> Inr normedPassphrase
      | Some kdf \<Rightarrow>
          (case ksKDF.Params kdf of
             None \<Rightarrow> Inl (Panic NilPointerDereference)
           | Some kdfParams \<Rightarrow>
               (case hex_DecodeString (Salt kdfParams) of
                  None \<Rightarrow> Inl (Err InvalidKDFSalt)
                | Some salt \<Rightarrow>
                    if ksKDF.Function kdf = ''scrypt'' then
                      (case scrypt_Key L normedPassphrase salt (N kdfParams) (R kdfParams)
                              (P kdfParams) (DKLen kdfParams) of
                         Inl (Err e) \<Rightarrow> Inl (Err InvalidKDFParameters)
                       | Inl (Panic p) \<Rightarrow> Inl (Panic p)
                       | Inr key \<Rightarrow> Inr key)
                    else if ksKDF.Function kdf = ''pbkdf2'' then
                      (if PRF kdfParams = ''hmac-sha256'' then
                         (case pbkdf2_Key L normedPassphrase salt (C kdfParams)
                                 (DKLen kdfParams) of
                            Inl p \<Rightarrow> Inl (Panic p)
                          | Inr key \<Rightarrow> Inr key)
                       else Inl (Err (UnsupportedPRF (PRF kdfParams))))
                    else Inl (Err (UnsupportedKDF (ksKDF.Function kdf))))))"

text \<open>Lines 96 to 103: the digest of \<^verbatim>\<open>decryptionKey[16:32]\<close> followed by the cipher message.\<close>

definition checksum :: "library \<Rightarrow> bytes \<Rightarrow> bytes \<Rightarrow> bytes" where
  "checksum L key cipherMsg = sha256_Sum L (take 16 (drop 16 key) @ cipherMsg)"

text \<open>Lines 112 to 130: the cipher, once the checksum has been verified.\<close>

definition decryptCipher :: "library \<Rightarrow> ksCipher \<Rightarrow> bytes \<Rightarrow> bytes \<Rightarrow> fault + bytes" where
  "decryptCipher L cipher key cipherMsg =
     (if ksCipher.Function cipher = ''aes-128-ctr'' then
        (case aes_NewCipher (take 16 key) of
           Inl e \<Rightarrow> Inl (Err e)
         | Inr aesCipher \<Rightarrow>
             (case ksCipher.Params cipher of
                None \<Rightarrow> Inl (Panic NilPointerDereference)
              | Some cipherParams \<Rightarrow>
                  (case hex_DecodeString (IV cipherParams) of
                     None \<Rightarrow> Inl (Err InvalidIV)
                   | Some iv \<Rightarrow>
                       (case cipher_NewCTR aesCipher iv of
                          Inl p \<Rightarrow> Inl (Panic p)
                        | Inr stream \<Rightarrow>
                            (case XORKeyStream L stream (replicate (length cipherMsg) 0)
                                    cipherMsg of
                               Inl p \<Rightarrow> Inl (Panic p)
                             | Inr res \<Rightarrow> Inr res)))))
      else Inl (Err (UnsupportedCipher (ksCipher.Function cipher))))"

text \<open>
  The whole function. \<^verbatim>\<open>Decrypt\<close> calls it with both \<^verbatim>\<open>ks.Checksum\<close> and \<^verbatim>\<open>ks.Cipher\<close>
  set; reading a field through a nil pointer panics.
\<close>

definition decryptNorm :: "library \<Rightarrow> keystoreV4 \<Rightarrow> bytes \<Rightarrow> fault + bytes" where
  "decryptNorm L ks normedPassphrase =
     (case decryptionKey L ks normedPassphrase of
        Inl f \<Rightarrow> Inl f
      | Inr key \<Rightarrow>
          if length key < 32 then Inl (Err DerivedKeyTooShort)
          else
            (case Cipher ks of
               None \<Rightarrow> Inl (Panic NilPointerDereference)
             | Some cipher \<Rightarrow>
                 (case hex_DecodeString (ksCipher.Message cipher) of
                    None \<Rightarrow> Inl (Err InvalidCipherMessage)
                  | Some cipherMsg \<Rightarrow>
                      (case Checksum ks of
                         None \<Rightarrow> Inl (Panic NilPointerDereference)
                       | Some cks \<Rightarrow>
                           (case hex_DecodeString (ksChecksum.Message cks) of
                              None \<Rightarrow> Inl (Err InvalidChecksumEncoding)
                            | Some checksumMsg \<Rightarrow>
                                if checksum L key cipherMsg \<noteq> checksumMsg
                                then Inl (Err ChecksumMismatch)
                                else decryptCipher L cipher key cipherMsg)))))"

subsection \<open>encoding/json: the record as Decrypt parses it\<close>

text \<open>
  \<^verbatim>\<open>Decrypt\<close> marshals its \<^verbatim>\<open>map[string]interface{}\<close> and unmarshals the text into a
  \<^verbatim>\<open>keystoreV4\<close>. The model goes from the Go value to the structure and leaves the text
  out: \<^verbatim>\<open>json.Marshal\<close> fails exactly on a value that holds an unsupported one and
  writes the entries of a map in the order of their keys; \<^verbatim>\<open>json.Unmarshal\<close> reads the
  members of an object in that order, matches a key to a field by its folded name,
  skips a key that matches no field, leaves a field as it is on \<^verbatim>\<open>null\<close> (a pointer or
  a map becomes nil), and reports a type error for any other JSON value that does not
  fit the field (\<open>None\<close> here). Strings are taken to be valid UTF-8, and \<^verbatim>\<open>int\<close> to
  have 64 bits.
\<close>

fun marshalable :: "jvalue \<Rightarrow> bool" where
  "marshalable (JArray vs) = (\<forall>v \<in> set vs. marshalable v)"
| "marshalable (JObject kvs) = (\<forall>kv \<in> set kvs. marshalable (snd kv))"
| "marshalable JUnsupported = False"
| "marshalable _ = True"

definition members :: "(string \<times> jvalue) list \<Rightarrow> (string \<times> jvalue) list" where
  \<comment> \<open>the entries of a Go map (its keys are distinct) as \<^verbatim>\<open>json.Marshal\<close> orders them\<close>
  "members kvs = sort_key fst kvs"

definition json_Marshal :: "(string \<times> jvalue) list \<Rightarrow> (string \<times> jvalue) list option" where
  "json_Marshal data = (if marshalable (JObject data) then Some (members data) else None)"

text \<open>
  The folded name of a key: ASCII letters in upper case, and the two letters outside
  ASCII that fold to ASCII ones: U+017F (long s, the bytes C5 BF) and U+212A (the
  Kelvin sign, E2 84 AA).
\<close>

definition upperASCII :: "char \<Rightarrow> char" where
  "upperASCII c =
     (let n = (of_char c :: nat) in if 97 \<le> n \<and> n \<le> 122 then char_of (n - 32) else c)"

fun foldName :: "string \<Rightarrow> string" where
  "foldName [] = []"
| "foldName (c # cs) =
     (if of_char c = (0xC5 :: nat) \<and> take 1 cs = [char_of (0xBF :: nat)]
      then CHR ''S'' # foldName (drop 1 cs)
      else if of_char c = (0xE2 :: nat) \<and> take 2 cs = [char_of (0x84 :: nat), char_of (0xAA :: nat)]
      then CHR ''K'' # foldName (drop 2 cs)
      else upperASCII c # foldName cs)"

definition decode_string :: "jvalue \<Rightarrow> string \<Rightarrow> string option" where
  "decode_string v old =
     (case v of JString s \<Rightarrow> Some s | JNull \<Rightarrow> Some old | _ \<Rightarrow> None)"

definition decode_int :: "jvalue \<Rightarrow> int \<Rightarrow> int option" where
  "decode_int v old =
     (case v of
        JInt n \<Rightarrow> if - (2 ^ 63) \<le> n \<and> n < 2 ^ 63 then Some n else None
      | JNull \<Rightarrow> Some old
      | _ \<Rightarrow> None)"

text \<open>The members of an object, decoded one after the other into a structure.\<close>

fun decode_members ::
  "('a \<Rightarrow> string \<times> jvalue \<Rightarrow> 'a option) \<Rightarrow> (string \<times> jvalue) list \<Rightarrow> 'a \<Rightarrow> 'a option" where
  "decode_members f [] s = Some s"
| "decode_members f (kv # kvs) s =
     (case f s kv of None \<Rightarrow> None | Some s' \<Rightarrow> decode_members f kvs s')"

definition decode_ptr ::
  "('a \<Rightarrow> string \<times> jvalue \<Rightarrow> 'a option) \<Rightarrow> 'a \<Rightarrow> jvalue \<Rightarrow> 'a option \<Rightarrow> 'a option option" where
  \<comment> \<open>a field that is a pointer to a structure: \<open>zero\<close> is the structure a nil pointer
      is set to before an object is decoded into it\<close>
  "decode_ptr f zero v old =
     (case v of
        JNull \<Rightarrow> Some None
      | JObject kvs \<Rightarrow>
          map_option Some
            (decode_members f (members kvs) (case old of None \<Rightarrow> zero | Some s \<Rightarrow> s))
      | _ \<Rightarrow> None)"

definition decode_map ::
  "jvalue \<Rightarrow> (string \<times> jvalue) list option \<Rightarrow> (string \<times> jvalue) list option option" where
  \<comment> \<open>a \<^verbatim>\<open>map[string]interface{}\<close> field: an object is added to the map that is there\<close>
  "decode_map v old =
     (case v of
        JNull \<Rightarrow> Some None
      | JObject kvs \<Rightarrow>
          Some (Some (members kvs @
            (case old of None \<Rightarrow> [] | Some m \<Rightarrow> filter (\<lambda>kv. fst kv \<notin> fst ` set kvs) m)))
      | _ \<Rightarrow> None)"

definition set_ksKDFParams :: "ksKDFParams \<Rightarrow> string \<times> jvalue \<Rightarrow> ksKDFParams option" where
  "set_ksKDFParams s kv =
     (let k = foldName (fst kv); v = snd kv in
      if k = ''SALT'' then map_option (\<lambda>x. s\<lparr>Salt := x\<rparr>) (decode_string v (Salt s))
      else if k = ''DKLEN'' then map_option (\<lambda>x. s\<lparr>DKLen := x\<rparr>) (decode_int v (DKLen s))
      else if k = ''N'' then map_option (\<lambda>x. s\<lparr>N := x\<rparr>) (decode_int v (N s))
      else if k = ''P'' then map_option (\<lambda>x. s\<lparr>P := x\<rparr>) (decode_int v (P s))
      else if k = ''R'' then map_option (\<lambda>x. s\<lparr>R := x\<rparr>) (decode_int v (R s))
      else if k = ''C'' then map_option (\<lambda>x. s\<lparr>C := x\<rparr>) (decode_int v (C s))
      else if k = ''PRF'' then map_option (\<lambda>x. s\<lparr>PRF := x\<rparr>) (decode_string v (PRF s))
      else Some s)"

definition zero_ksKDFParams :: ksKDFParams where
  "zero_ksKDFParams = \<lparr>Salt = [], DKLen = 0, N = 0, P = 0, R = 0, C = 0, PRF = []\<rparr>"

definition set_ksKDF :: "ksKDF \<Rightarrow> string \<times> jvalue \<Rightarrow> ksKDF option" where
  "set_ksKDF s kv =
     (let k = foldName (fst kv); v = snd kv in
      if k = ''FUNCTION''
      then map_option (\<lambda>x. s\<lparr>ksKDF.Function := x\<rparr>) (decode_string v (ksKDF.Function s))
      else if k = ''PARAMS''
      then map_option (\<lambda>x. s\<lparr>ksKDF.Params := x\<rparr>)
             (decode_ptr set_ksKDFParams zero_ksKDFParams v (ksKDF.Params s))
      else if k = ''MESSAGE''
      then map_option (\<lambda>x. s\<lparr>ksKDF.Message := x\<rparr>) (decode_string v (ksKDF.Message s))
      else Some s)"

definition zero_ksKDF :: ksKDF where
  "zero_ksKDF = \<lparr>ksKDF.Function = [], ksKDF.Params = None, ksKDF.Message = []\<rparr>"

definition set_ksChecksum :: "ksChecksum \<Rightarrow> string \<times> jvalue \<Rightarrow> ksChecksum option" where
  "set_ksChecksum s kv =
     (let k = foldName (fst kv); v = snd kv in
      if k = ''FUNCTION''
      then map_option (\<lambda>x. s\<lparr>ksChecksum.Function := x\<rparr>)
             (decode_string v (ksChecksum.Function s))
      else if k = ''PARAMS''
      then map_option (\<lambda>x. s\<lparr>ksChecksum.Params := x\<rparr>) (decode_map v (ksChecksum.Params s))
      else if k = ''MESSAGE''
      then map_option (\<lambda>x. s\<lparr>ksChecksum.Message := x\<rparr>)
             (decode_string v (ksChecksum.Message s))
      else Some s)"

definition zero_ksChecksum :: ksChecksum where
  "zero_ksChecksum =
     \<lparr>ksChecksum.Function = [], ksChecksum.Params = None, ksChecksum.Message = []\<rparr>"

definition set_ksCipherParams :: "ksCipherParams \<Rightarrow> string \<times> jvalue \<Rightarrow> ksCipherParams option" where
  "set_ksCipherParams s kv =
     (let k = foldName (fst kv); v = snd kv in
      if k = ''IV'' then map_option (\<lambda>x. s\<lparr>IV := x\<rparr>) (decode_string v (IV s))
      else Some s)"

definition zero_ksCipherParams :: ksCipherParams where
  "zero_ksCipherParams = \<lparr>IV = []\<rparr>"

definition set_ksCipher :: "ksCipher \<Rightarrow> string \<times> jvalue \<Rightarrow> ksCipher option" where
  "set_ksCipher s kv =
     (let k = foldName (fst kv); v = snd kv in
      if k = ''FUNCTION''
      then map_option (\<lambda>x. s\<lparr>ksCipher.Function := x\<rparr>) (decode_string v (ksCipher.Function s))
      else if k = ''PARAMS''
      then map_option (\<lambda>x. s\<lparr>ksCipher.Params := x\<rparr>)
             (decode_ptr set_ksCipherParams zero_ksCipherParams v (ksCipher.Params s))
      else if k = ''MESSAGE''
      then map_option (\<lambda>x. s\<lparr>ksCipher.Message := x\<rparr>) (decode_string v (ksCipher.Message s))
      else Some s)"

definition zero_ksCipher :: ksCipher where
  "zero_ksCipher = \<lparr>ksCipher.Function = [], ksCipher.Params = None, ksCipher.Message = []\<rparr>"

definition set_keystoreV4 :: "keystoreV4 \<Rightarrow> string \<times> jvalue \<Rightarrow> keystoreV4 option" where
  "set_keystoreV4 s kv =
     (let k = foldName (fst kv); v = snd kv in
      if k = ''KDF''
      then map_option (\<lambda>x. s\<lparr>KDF := x\<rparr>) (decode_ptr set_ksKDF zero_ksKDF v (KDF s))
      else if k = ''CHECKSUM''
      then map_option (\<lambda>x. s\<lparr>Checksum := x\<rparr>)
             (decode_ptr set_ksChecksum zero_ksChecksum v (Checksum s))
      else if k = ''CIPHER''
      then map_option (\<lambda>x. s\<lparr>Cipher := x\<rparr>) (decode_ptr set_ksCipher zero_ksCipher v (Cipher s))
      else Some s)"

definition json_Unmarshal :: "(string \<times> jvalue) list \<Rightarrow> keystoreV4 option" where
  \<comment> \<open>into \<^verbatim>\<open>ks := &keystoreV4{}\<close>\<close>
  "json_Unmarshal b =
     decode_members set_keystoreV4 b \<lparr>KDF = None, Checksum = None, Cipher = None\<rparr>"

subsection \<open>Decrypt\<close>

text \<open>
  \<open>data\<close> is \<open>None\<close> for a nil map. The receiver is not used by the method and is
  left out. A panic of the first \<^verbatim>\<open>decryptNorm\<close> aborts the call; only an error leads
  to the second one.
\<close>

definition Decrypt :: "library \<Rightarrow> (string \<times> jvalue) list option \<Rightarrow> string \<Rightarrow> fault + bytes" where
  "Decrypt L data passphrase =
     (case data of
        None \<Rightarrow> Inl (Err NoData)
      | Some m \<Rightarrow>
          (case json_Marshal m of
             None \<Rightarrow> Inl (Err MalformedRecord)
           | Some b \<Rightarrow>
               (case json_Unmarshal b of
                  None \<Rightarrow> Inl (Err MalformedRecord)
                | Some ks \<Rightarrow>
                    if Checksum ks = None then Inl (Err MissingChecksum)
                    else if Cipher ks = None then Inl (Err MissingCipher)
                    else
                      (case decryptNorm L ks (bytes_of_string (normPassphrase L passphrase)) of
                         Inr res \<Rightarrow> Inr res
                       | Inl (Panic p) \<Rightarrow> Inl (Panic p)
                       | Inl (Err e) \<Rightarrow>
                           (case decryptNorm L ks
                                   (bytes_of_string (altNormPassphrase L passphrase)) of
                              Inl f \<Rightarrow> Inl f
                            | Inr res \<Rightarrow> Inr res)))))"

subsection \<open>Example records\<close>

text \<open>
  Records and passphrases for the concrete instances below. The stored checksum of a
  record is written with \<^verbatim>\<open>hex.EncodeToString\<close>, so that an instance can store the digest
  of whatever SHA-256 the library computes.
\<close>

definition passphrase_a32 :: string where
  "passphrase_a32 = replicate 32 (CHR ''a'')"

definition key_a32 :: bytes where
  "key_a32 = replicate 32 0x61"

definition digest_c0ffee :: "library \<Rightarrow> bytes" where
  "digest_c0ffee L = sha256_Sum L (replicate 16 0x61 @ [0xc0, 0xff, 0xee])"

definition record_without_kdf ::
  "string \<Rightarrow> string \<Rightarrow> ksCipherParams option \<Rightarrow> string \<Rightarrow> keystoreV4" where
  "record_without_kdf checksumMsg cipherFunction cipherParams cipherMsg =
     \<lparr>KDF = None,
      Checksum = Some \<lparr>ksChecksum.Function = ''sha256'', ksChecksum.Params = Some [],
                        ksChecksum.Message = checksumMsg\<rparr>,
      Cipher = Some \<lparr>ksCipher.Function = cipherFunction, ksCipher.Params = cipherParams,
                      ksCipher.Message = cipherMsg\<rparr>\<rparr>"

definition json_without_kdf :: "string \<Rightarrow> string \<Rightarrow> jvalue \<Rightarrow> string \<Rightarrow> (string \<times> jvalue) list" where
  "json_without_kdf checksumMsg cipherFunction cipherParams cipherMsg =
     [(''checksum'', JObject [(''function'', JString ''sha256''), (''params'', JObject []),
                              (''message'', JString checksumMsg)]),
      (''cipher'', JObject [(''function'', JString cipherFunction), (''params'', cipherParams),
                            (''message'', JString cipherMsg)])]"

definition record_with_kdf :: "string \<Rightarrow> ksKDFParams option \<Rightarrow> keystoreV4" where
  "record_with_kdf function params =
     \<lparr>KDF = Some \<lparr>ksKDF.Function = function, ksKDF.Params = params, ksKDF.Message = []\<rparr>,
      Checksum = Some \<lparr>ksChecksum.Function = ''sha256'', ksChecksum.Params = Some [],
                        ksChecksum.Message = []\<rparr>,
      Cipher = Some \<lparr>ksCipher.Function = ''aes-128-ctr'',
                      ksCipher.Params = Some \<lparr>IV = []\<rparr>, ksCipher.Message = []\<rparr>\<rparr>"

definition json_with_kdf :: "string \<Rightarrow> jvalue \<Rightarrow> (string \<times> jvalue) list" where
  "json_with_kdf function params =
     [(''kdf'', JObject [(''function'', JString function), (''params'', params),
                         (''message'', JString [])]),
      (''checksum'', JObject [(''function'', JString ''sha256''), (''params'', JObject []),
                              (''message'', JString [])]),
      (''cipher'', JObject [(''function'', JString ''aes-128-ctr''),
                            (''params'', JObject [(''iv'', JString [])]),
                            (''message'', JString [])])]"

definition with_normalisations ::
  "(string \<Rightarrow> string) \<Rightarrow> (string \<Rightarrow> string) \<Rightarrow> library \<Rightarrow> library" where
  \<comment> \<open>a library whose two normalisations are the given functions\<close>
  "with_normalisations norm alt L = L\<lparr>normPassphrase := norm, altNormPassphrase := alt\<rparr>"

definition with_sha256 :: "bytes \<Rightarrow> bytes \<Rightarrow> library \<Rightarrow> library" where
  \<comment> \<open>a library whose SHA-256 has the given digest for the given message\<close>
  "with_sha256 msg digest L = L\<lparr>sha256_Sum := (sha256_Sum L)(msg := digest)\<rparr>"

definition with_scrypt_zeros :: "library \<Rightarrow> library" where
  \<comment> \<open>a library whose scrypt returns \<open>keyLen\<close> bytes (all of them 0)\<close>
  "with_scrypt_zeros L =
     L\<lparr>scrypt_Key := \<lambda>password salt n r p keyLen. Inr (replicate (nat keyLen) 0)\<rparr>"

definition sha256_a16_c0ffee :: bytes where
  \<comment> \<open>the SHA-256 digest of sixteen letters a followed by the bytes c0 ff ee\<close>
  "sha256_a16_c0ffee =
     [0x5b, 0x41, 0xc5, 0x56, 0x2b, 0x9c, 0xa9, 0x38, 0x96, 0xb7, 0x0e, 0x96, 0xdb, 0x26, 0x3c, 0x58,
      0x9f, 0x98, 0xc2, 0xf0, 0xed, 0x4b, 0xb3, 0x84, 0x5f, 0xd8, 0x6e, 0x3e, 0x26, 0x86, 0x4d, 0xad]"

section \<open>Properties\<close>

subsection \<open>Hexadecimal encoding and decoding\<close>

lemma hexDigit_table:
  "\<forall>n \<in> set [0..<16]. fromHexChar (hexDigit (of_nat n)) = Some (of_nat n)"
  by (simp add: upt_rec fromHexChar_def hexDigit_def)

lemma fromHexChar_hexDigit:
  fixes n :: byte
  assumes "n < 16"
  shows "fromHexChar (hexDigit n) = Some n"
proof -
  have "unat n \<in> set [0..<16]" using assms by (simp add: word_less_nat_alt)
  with hexDigit_table have "fromHexChar (hexDigit (of_nat (unat n))) = Some (of_nat (unat n))"
    by blast
  then show ?thesis by simp
qed

lemma high_nibble_less: "drop_bit 4 (b :: byte) < 16"
proof -
  have "unat (drop_bit 4 b) = drop_bit 4 (unat b)" by (rule unat_drop_bit_eq)
  also have "\<dots> = unat b div 2 ^ 4" by (rule drop_bit_eq_div)
  finally have "unat (drop_bit 4 b) = unat b div 16" by simp
  moreover have "unat b < 256" using unsigned_less [of b] by simp
  ultimately show ?thesis by (simp add: word_less_nat_alt)
qed

lemma low_nibble_less: "(b :: byte) AND 15 < 16"
proof -
  have "b AND 15 \<le> 15" by (rule word_and_le1)
  then show ?thesis by (simp add: word_le_nat_alt word_less_nat_alt)
qed

lemma nibbles_join: "push_bit 4 (drop_bit 4 (b :: byte)) OR (b AND 15) = b"
proof -
  have "(15 :: byte) = mask 4" by (simp add: mask_eq_exp_minus_1)
  then show ?thesis
    by (simp add: bit_eq_iff bit_simps) (auto simp: bit_simps)
qed

lemma hex_roundtrip: "hex_DecodeString (hex_EncodeToString bs) = Some bs"
  by (induction bs)
    (simp_all add: fromHexChar_hexDigit high_nibble_less low_nibble_less nibbles_join)

lemma hex_c0ffee: "hex_DecodeString ''c0ffee'' = Some [0xc0, 0xff, 0xee]"
  by (simp add: fromHexChar_def)

lemma hex_zz: "hex_DecodeString ''zz'' = None"
  by (simp add: fromHexChar_def)

lemma hex_iv16: "hex_DecodeString ''000102030405060708090a0b0c0d0e0f'' =
    Some [0, 1, 2, 3, 4, 5, 6, 7, 8, 9, 10, 11, 12, 13, 14, 15]"
  by (simp add: fromHexChar_def)

lemma hex_iv2: "hex_DecodeString ''0001'' = Some [0, 1]"
  by (simp add: fromHexChar_def)

lemma hex_sha256_a16_c0ffee:
  "hex_DecodeString ''5b41c5562b9ca93896b70e96db263c589f98c2f0ed4bb3845fd86e3e26864dad'' =
     Some sha256_a16_c0ffee"
  by (simp add: fromHexChar_def sha256_a16_c0ffee_def)

subsection \<open>The stages of decryptNorm\<close>

lemma decryptionKey_KDF_only:
  "decryptionKey L (ks\<lparr>Checksum := ck, Cipher := ci\<rparr>) pw = decryptionKey L ks pw"
  by (simp add: decryptionKey_def)

lemma decryptNorm_verified:
  assumes "decryptionKey L ks pw = Inr key" and "32 \<le> length key"
    and "Cipher ks = Some c" and "hex_DecodeString (ksCipher.Message c) = Some ct"
    and "Checksum ks = Some cks" and "hex_DecodeString (ksChecksum.Message cks) = Some cs"
  shows "decryptNorm L ks pw =
           (if sha256_Sum L (take 16 (drop 16 key) @ ct) = cs then decryptCipher L c key ct
            else Inl (Err ChecksumMismatch))"
  using assms by (simp add: decryptNorm_def checksum_def)

lemma decryptNorm_Inr:
  assumes "decryptNorm L ks pw = Inr pt"
  shows "\<exists>key c ct cks cs. decryptionKey L ks pw = Inr key \<and> 32 \<le> length key \<and>
           Cipher ks = Some c \<and> hex_DecodeString (ksCipher.Message c) = Some ct \<and>
           Checksum ks = Some cks \<and> hex_DecodeString (ksChecksum.Message cks) = Some cs \<and>
           sha256_Sum L (take 16 (drop 16 key) @ ct) = cs \<and>
           decryptCipher L c key ct = Inr pt"
  using assms
  by (auto simp: decryptNorm_def checksum_def split: sum.splits option.splits if_splits)

lemma decryptCipher_not_mismatch:
  "decryptCipher L c key ct \<noteq> Inl (Err ChecksumMismatch)"
  by (auto simp: decryptCipher_def aes_NewCipher_def cipher_NewCTR_def XORKeyStream_def
      split: sum.splits option.splits if_splits)

lemma decryptCipher_aes:
  assumes "ksCipher.Function c = ''aes-128-ctr''" and "32 \<le> length key"
  shows "decryptCipher L c key ct =
           (case ksCipher.Params c of
              None \<Rightarrow> Inl (Panic NilPointerDereference)
            | Some cp \<Rightarrow>
                (case hex_DecodeString (IV cp) of
                   None \<Rightarrow> Inl (Err InvalidIV)
                 | Some iv \<Rightarrow>
                     if length iv \<noteq> 16 then Inl (Panic IVLengthNotBlockSize)
                     else Inr (map2 (XOR) ct
                            (map (aes_ctr_keystream L (take 16 key) iv) [0..<length ct]))))"
  using assms
  by (simp add: decryptCipher_def aes_NewCipher_def cipher_NewCTR_def XORKeyStream_def
      split: option.splits)

lemma decryptCipher_Inr:
  assumes "decryptCipher L c key ct = Inr pt"
  shows "ksCipher.Function c = ''aes-128-ctr'' \<and>
         (\<exists>cp iv. ksCipher.Params c = Some cp \<and> hex_DecodeString (IV cp) = Some iv \<and>
            length iv = 16 \<and>
            pt = map2 (XOR) ct (map (aes_ctr_keystream L (take 16 key) iv) [0..<length ct]))"
  using assms
  by (auto simp: decryptCipher_def aes_NewCipher_def cipher_NewCTR_def XORKeyStream_def
      split: sum.splits option.splits if_splits)

lemma decryptionKey_not_InvalidIV: "decryptionKey L ks pw \<noteq> Inl (Err InvalidIV)"
  by (simp add: decryptionKey_def split: option.splits sum.splits fault.splits)

lemma decryptCipher_InvalidIV:
  assumes "decryptCipher L c key ct = Inl (Err InvalidIV)"
  shows "\<exists>cp. ksCipher.Params c = Some cp \<and> hex_DecodeString (IV cp) = None"
  using assms
  by (simp add: decryptCipher_def aes_NewCipher_def cipher_NewCTR_def XORKeyStream_def
      split: option.splits sum.splits if_splits)

lemma decryptNorm_InvalidIV:
  assumes "decryptNorm L ks pw = Inl (Err InvalidIV)"
  shows "\<exists>c cp. Cipher ks = Some c \<and> ksCipher.Params c = Some cp \<and>
           hex_DecodeString (IV cp) = None"
proof -
  from assms decryptionKey_not_InvalidIV [of L ks pw]
  obtain key c ct where "Cipher ks = Some c" and "decryptCipher L c key ct = Inl (Err InvalidIV)"
    by (auto simp: decryptNorm_def split: sum.splits option.splits if_splits)
  with decryptCipher_InvalidIV show ?thesis by blast
qed

lemma Decrypt_parsed:
  assumes "json_Marshal m = Some b" and "json_Unmarshal b = Some ks"
    and "Checksum ks \<noteq> None" and "Cipher ks \<noteq> None"
  shows "Decrypt L (Some m) passphrase =
           (case decryptNorm L ks (bytes_of_string (normPassphrase L passphrase)) of
              Inr res \<Rightarrow> Inr res
            | Inl (Panic p) \<Rightarrow> Inl (Panic p)
            | Inl (Err e) \<Rightarrow>
                decryptNorm L ks (bytes_of_string (altNormPassphrase L passphrase)))"
  using assms by (auto simp: Decrypt_def split: sum.splits fault.splits)

subsection \<open>The example records\<close>

lemmas json_defs =
  json_Marshal_def json_Unmarshal_def members_def set_keystoreV4_def set_ksKDF_def
  set_ksKDFParams_def set_ksChecksum_def set_ksCipher_def set_ksCipherParams_def
  decode_ptr_def decode_map_def decode_string_def decode_int_def upperASCII_def
  zero_ksKDF_def zero_ksKDFParams_def zero_ksChecksum_def zero_ksCipher_def
  zero_ksCipherParams_def char_of_def Let_def bit_0

lemma bytes_passphrase_a32: "bytes_of_string passphrase_a32 = key_a32"
  by (simp add: bytes_of_string_def passphrase_a32_def key_a32_def)

lemma key_a32_simps:
  "length key_a32 = 32" "take 16 (drop 16 key_a32) = replicate 16 0x61"
  "take 16 key_a32 = replicate 16 0x61"
  by (simp_all add: key_a32_def)

lemma record_without_kdf_simps:
  "KDF (record_without_kdf cm f q m) = None"
  "Checksum (record_without_kdf cm f q m) =
     Some \<lparr>ksChecksum.Function = ''sha256'', ksChecksum.Params = Some [],
           ksChecksum.Message = cm\<rparr>"
  "Cipher (record_without_kdf cm f q m) =
     Some \<lparr>ksCipher.Function = f, ksCipher.Params = q, ksCipher.Message = m\<rparr>"
  "decryptionKey L (record_without_kdf cm f q m) pw = Inr pw"
  by (simp_all add: record_without_kdf_def decryptionKey_def)

lemma parse_json_without_kdf:
  "json_Marshal (json_without_kdf cm f JNull m) = Some (members (json_without_kdf cm f JNull m))"
  "json_Unmarshal (members (json_without_kdf cm f JNull m)) = Some (record_without_kdf cm f None m)"
  "json_Marshal (json_without_kdf cm f (JObject [(''iv'', JString iv)]) m) =
     Some (members (json_without_kdf cm f (JObject [(''iv'', JString iv)]) m))"
  "json_Unmarshal (members (json_without_kdf cm f (JObject [(''iv'', JString iv)]) m)) =
     Some (record_without_kdf cm f (Some \<lparr>IV = iv\<rparr>) m)"
  by (simp_all add: json_defs json_without_kdf_def record_without_kdf_def)

lemma record_with_kdf_simps:
  "KDF (record_with_kdf f q) =
     Some \<lparr>ksKDF.Function = f, ksKDF.Params = q, ksKDF.Message = []\<rparr>"
  "Checksum (record_with_kdf f q) \<noteq> None" "Cipher (record_with_kdf f q) \<noteq> None"
  by (simp_all add: record_with_kdf_def)

lemma parse_json_with_kdf:
  "json_Marshal (json_with_kdf f JNull) = Some (members (json_with_kdf f JNull))"
  "json_Unmarshal (members (json_with_kdf f JNull)) = Some (record_with_kdf f None)"
  "json_Marshal (json_with_kdf f (JObject [(''salt'', JString s), (''prf'', JString prf)])) =
     Some (members (json_with_kdf f (JObject [(''salt'', JString s), (''prf'', JString prf)])))"
  "json_Unmarshal (members
       (json_with_kdf f (JObject [(''salt'', JString s), (''prf'', JString prf)]))) =
     Some (record_with_kdf f (Some (zero_ksKDFParams\<lparr>Salt := s, PRF := prf\<rparr>)))"
  by (simp_all add: json_defs json_with_kdf_def record_with_kdf_def)

lemma with_normalisations_simps:
  "normPassphrase (with_normalisations norm alt L) = norm"
  "altNormPassphrase (with_normalisations norm alt L) = alt"
  "sha256_Sum (with_normalisations norm alt L) = sha256_Sum L"
  "aes_ctr_keystream (with_normalisations norm alt L) = aes_ctr_keystream L"
  by (simp_all add: with_normalisations_def)

lemma decryptNorm_with_normalisations:
  "decryptNorm (with_normalisations norm alt L) ks pw = decryptNorm L ks pw"
  by (simp add: decryptNorm_def decryptionKey_def checksum_def decryptCipher_def
      XORKeyStream_def with_normalisations_def
      cong: option.case_cong sum.case_cong fault.case_cong if_cong)

section \<open>The claims\<close>

text \<open>
  Claim C1. For every parsed record and passphrase: when \<^verbatim>\<open>decryptNorm\<close> returns an
  error under the primary normalisation of the passphrase, \<^verbatim>\<open>Decrypt\<close> drops that error
  and returns what \<^verbatim>\<open>decryptNorm\<close> returns under the alternate normalisation; when that
  second attempt returns an error too, this second error is the one the caller gets.
\<close>

theorem Decrypt_retry_returns_second_result:
  assumes "json_Marshal m = Some b" and "json_Unmarshal b = Some ks"
    and "Checksum ks \<noteq> None" and "Cipher ks \<noteq> None"
    and "decryptNorm L ks (bytes_of_string (normPassphrase L passphrase)) = Inl (Err e1)"
  shows "Decrypt L (Some m) passphrase =
           decryptNorm L ks (bytes_of_string (altNormPassphrase L passphrase)) \<and>
         (\<forall>e2. decryptNorm L ks (bytes_of_string (altNormPassphrase L passphrase)) =
                 Inl (Err e2) \<longrightarrow>
               Decrypt L (Some m) passphrase = Inl (Err e2))"
  using assms by (auto simp: Decrypt_def split: sum.splits)

text \<open>
  An instance: a record without KDF and with a cipher message that is no hexadecimal
  string. The 16-byte passphrase is too short as a key; the alternate normalisation
  (here: the passphrase twice) gives 32 bytes, so the second attempt gets as far as the
  cipher message, and its error is the one returned.
\<close>

theorem Decrypt_retry_returns_second_result_witness:
  "\<forall>L. decryptNorm (with_normalisations (\<lambda>s. s) (\<lambda>s. s @ s) L)
          (record_without_kdf [] ''aes-128-ctr'' None ''zz'')
          (bytes_of_string (replicate 16 (CHR ''a''))) = Inl (Err DerivedKeyTooShort) \<and>
       Decrypt (with_normalisations (\<lambda>s. s) (\<lambda>s. s @ s) L)
          (Some (json_without_kdf [] ''aes-128-ctr'' JNull ''zz''))
          (replicate 16 (CHR ''a'')) = Inl (Err InvalidCipherMessage)"
proof (intro allI)
  fix L
  let ?L = "with_normalisations (\<lambda>s. s) (\<lambda>s. s @ s) L"
  let ?ks = "record_without_kdf [] ''aes-128-ctr'' None ''zz''"
  let ?m = "json_without_kdf [] ''aes-128-ctr'' JNull ''zz''"
  let ?p = "replicate 16 (CHR ''a'')"
  have marshal: "json_Marshal ?m = Some (members ?m)"
    by (rule parse_json_without_kdf)
  have unmarshal: "json_Unmarshal (members ?m) = Some ?ks"
    by (rule parse_json_without_kdf)
  have present: "Checksum ?ks \<noteq> None" "Cipher ?ks \<noteq> None"
    by (simp_all add: record_without_kdf_simps)
  have first: "decryptNorm ?L ?ks (bytes_of_string (normPassphrase ?L ?p)) =
      Inl (Err DerivedKeyTooShort)"
    by (simp add: decryptNorm_def record_without_kdf_simps with_normalisations_simps
        bytes_of_string_def)
  have second: "decryptNorm ?L ?ks (bytes_of_string (altNormPassphrase ?L ?p)) =
      Inl (Err InvalidCipherMessage)"
    by (simp add: decryptNorm_def record_without_kdf_simps with_normalisations_simps
        bytes_of_string_def hex_zz del: hex_DecodeString.simps)
  from Decrypt_retry_returns_second_result [OF marshal unmarshal present first] second
  have "Decrypt ?L (Some ?m) ?p = Inl (Err InvalidCipherMessage)"
    by simp
  with first show "decryptNorm ?L ?ks (bytes_of_string ?p) = Inl (Err DerivedKeyTooShort) \<and>
      Decrypt ?L (Some ?m) ?p = Inl (Err InvalidCipherMessage)"
    by (simp add: with_normalisations_simps)
qed

text \<open>
  Claim C2. For every derived key of at least 32 bytes and every cipher message and
  stored checksum that decode from hexadecimal, \<^verbatim>\<open>decryptNorm\<close> computes SHA-256 over
  the key bytes 16 to 31 followed by the cipher message; it goes on to the cipher exactly
  when the digest equals the decoded stored checksum, and returns \<open>ChecksumMismatch\<close>
  exactly when it does not.
\<close>

theorem checksum_verifier:
  assumes "decryptionKey L ks pw = Inr key" and "32 \<le> length key"
    and "Cipher ks = Some c" and "hex_DecodeString (ksCipher.Message c) = Some ct"
    and "Checksum ks = Some cks" and "hex_DecodeString (ksChecksum.Message cks) = Some cs"
  shows "decryptNorm L ks pw =
           (if sha256_Sum L (take 16 (drop 16 key) @ ct) = cs then decryptCipher L c key ct
            else Inl (Err ChecksumMismatch)) \<and>
         (decryptNorm L ks pw = Inl (Err ChecksumMismatch) \<longleftrightarrow>
            sha256_Sum L (take 16 (drop 16 key) @ ct) \<noteq> cs)"
  using decryptNorm_verified [OF assms] decryptCipher_not_mismatch [of L c key ct]
  by simp

text \<open>
  Two instances with the key of 32 letters a and the cipher message c0ffee: the stored
  checksum is the digest, and the digest with a byte 00 in front.
\<close>

theorem checksum_verifier_witness:
  "\<forall>L. decryptNorm L
          (record_without_kdf (hex_EncodeToString (digest_c0ffee L)) ''none'' None ''c0ffee'')
          key_a32 = Inl (Err (UnsupportedCipher ''none'')) \<and>
       decryptNorm L
          (record_without_kdf (hex_EncodeToString (0 # digest_c0ffee L)) ''none'' None ''c0ffee'')
          key_a32 = Inl (Err ChecksumMismatch)"
proof (intro allI conjI)
  fix L
  let ?c = "\<lparr>ksCipher.Function = ''none'', ksCipher.Params = None,
    ksCipher.Message = ''c0ffee''\<rparr>"
  let ?k = "\<lambda>cs. \<lparr>ksChecksum.Function = ''sha256'', ksChecksum.Params = Some [],
    ksChecksum.Message = hex_EncodeToString cs\<rparr>"
  let ?ks = "\<lambda>cs. record_without_kdf (hex_EncodeToString cs) ''none'' None ''c0ffee''"
  have key: "decryptionKey L (?ks cs) key_a32 = Inr key_a32" for cs
    by (rule record_without_kdf_simps)
  have len: "32 \<le> length key_a32" by (simp add: key_a32_simps)
  have ci: "Cipher (?ks cs) = Some ?c" for cs
    by (rule record_without_kdf_simps)
  have ct: "hex_DecodeString (ksCipher.Message ?c) = Some [0xc0, 0xff, 0xee]"
    by (simp add: hex_c0ffee del: hex_DecodeString.simps)
  have ck: "Checksum (?ks cs) = Some (?k cs)" for cs
    by (rule record_without_kdf_simps)
  have cs: "hex_DecodeString (ksChecksum.Message (?k cs)) = Some cs" for cs
    by (simp add: hex_roundtrip)
  from checksum_verifier [OF key len ci ct ck cs, of "digest_c0ffee L"]
  show "decryptNorm L (?ks (digest_c0ffee L)) key_a32 = Inl (Err (UnsupportedCipher ''none''))"
    by (simp add: digest_c0ffee_def decryptCipher_def key_a32_simps)
  from checksum_verifier [OF key len ci ct ck cs, of "0 # digest_c0ffee L"]
  show "decryptNorm L (?ks (0 # digest_c0ffee L)) key_a32 = Inl (Err ChecksumMismatch)"
    by (simp add: digest_c0ffee_def key_a32_simps)
qed

text \<open>
  Claim C3. The checksum is verified before the cipher is looked at: on every input
  whose computed checksum differs from the stored one, \<^verbatim>\<open>decryptNorm\<close> returns
  \<open>ChecksumMismatch\<close> whatever the cipher function and the cipher parameters are
  (supported or not, present or not); and whenever \<^verbatim>\<open>decryptNorm\<close> returns a plaintext,
  the checksum of the record has been computed and equals the stored one.
\<close>

theorem checksum_precedes_cipher:
  "(decryptionKey L ks pw = Inr key \<and> 32 \<le> length key \<and>
    Cipher ks = Some c \<and> hex_DecodeString (ksCipher.Message c) = Some ct \<and>
    Checksum ks = Some cks \<and> hex_DecodeString (ksChecksum.Message cks) = Some cs \<and>
    sha256_Sum L (take 16 (drop 16 key) @ ct) \<noteq> cs \<longrightarrow>
      (\<forall>f q. decryptNorm L
                (ks\<lparr>Cipher := Some (c\<lparr>ksCipher.Function := f, ksCipher.Params := q\<rparr>)\<rparr>) pw =
              Inl (Err ChecksumMismatch))) \<and>
   (decryptNorm L ks pw = Inr pt \<longrightarrow>
      (\<exists>key c ct cks cs. decryptionKey L ks pw = Inr key \<and> 32 \<le> length key \<and>
         Cipher ks = Some c \<and> hex_DecodeString (ksCipher.Message c) = Some ct \<and>
         Checksum ks = Some cks \<and> hex_DecodeString (ksChecksum.Message cks) = Some cs \<and>
         sha256_Sum L (take 16 (drop 16 key) @ ct) = cs))"
proof (intro conjI impI allI)
  fix f q
  assume a: "decryptionKey L ks pw = Inr key \<and> 32 \<le> length key \<and>
    Cipher ks = Some c \<and> hex_DecodeString (ksCipher.Message c) = Some ct \<and>
    Checksum ks = Some cks \<and> hex_DecodeString (ksChecksum.Message cks) = Some cs \<and>
    sha256_Sum L (take 16 (drop 16 key) @ ct) \<noteq> cs"
  let ?ks = "ks\<lparr>Cipher := Some (c\<lparr>ksCipher.Function := f, ksCipher.Params := q\<rparr>)\<rparr>"
  have "decryptionKey L ?ks pw = Inr key"
    using a by (simp add: decryptionKey_def)
  with a show "decryptNorm L ?ks pw = Inl (Err ChecksumMismatch)"
    by (simp add: decryptNorm_def checksum_def)
next
  assume "decryptNorm L ks pw = Inr pt"
  from decryptNorm_Inr [OF this]
  show "\<exists>key c ct cks cs. decryptionKey L ks pw = Inr key \<and> 32 \<le> length key \<and>
         Cipher ks = Some c \<and> hex_DecodeString (ksCipher.Message c) = Some ct \<and>
         Checksum ks = Some cks \<and> hex_DecodeString (ksChecksum.Message cks) = Some cs \<and>
         sha256_Sum L (take 16 (drop 16 key) @ ct) = cs"
    by blast
qed

text \<open>
  Instances. The stored checksum is the digest with a byte 00 in front, the cipher
  function is unsupported and the cipher parameters are missing: the checksum error is
  the one reported. The stored checksum is the digest and the cipher is aes-128-ctr with
  an IV of 16 bytes: a plaintext is returned, and the checksum has been verified.
\<close>

theorem checksum_precedes_cipher_witness:
  "\<forall>L. decryptNorm L
          (record_without_kdf (hex_EncodeToString (0 # digest_c0ffee L)) ''rot13'' None ''c0ffee'')
          key_a32 = Inl (Err ChecksumMismatch) \<and>
       (\<exists>pt. decryptNorm L
          (record_without_kdf (hex_EncodeToString (digest_c0ffee L)) ''aes-128-ctr''
             (Some \<lparr>IV = ''000102030405060708090a0b0c0d0e0f''\<rparr>) ''c0ffee'')
          key_a32 = Inr pt) \<and>
       (\<exists>key c ct cks cs.
          decryptionKey L
            (record_without_kdf (hex_EncodeToString (digest_c0ffee L)) ''aes-128-ctr''
               (Some \<lparr>IV = ''000102030405060708090a0b0c0d0e0f''\<rparr>) ''c0ffee'')
            key_a32 = Inr key \<and> 32 \<le> length key \<and>
          Cipher (record_without_kdf (hex_EncodeToString (digest_c0ffee L)) ''aes-128-ctr''
               (Some \<lparr>IV = ''000102030405060708090a0b0c0d0e0f''\<rparr>) ''c0ffee'') = Some c \<and>
          hex_DecodeString (ksCipher.Message c) = Some ct \<and>
          Checksum (record_without_kdf (hex_EncodeToString (digest_c0ffee L)) ''aes-128-ctr''
               (Some \<lparr>IV = ''000102030405060708090a0b0c0d0e0f''\<rparr>) ''c0ffee'') = Some cks \<and>
          hex_DecodeString (ksChecksum.Message cks) = Some cs \<and>
          sha256_Sum L (take 16 (drop 16 key) @ ct) = cs)"
proof (intro allI conjI)
  fix L
  let ?m = "hex_EncodeToString (0 # digest_c0ffee L)"
  let ?c = "\<lparr>ksCipher.Function = ''aes-128-ctr'', ksCipher.Params = Some \<lparr>IV = []\<rparr>,
    ksCipher.Message = ''c0ffee''\<rparr>"
  let ?k = "\<lparr>ksChecksum.Function = ''sha256'', ksChecksum.Params = Some [],
    ksChecksum.Message = ?m\<rparr>"
  let ?ks = "record_without_kdf ?m ''aes-128-ctr'' (Some \<lparr>IV = []\<rparr>) ''c0ffee''"
  have "decryptionKey L ?ks key_a32 = Inr key_a32 \<and> 32 \<le> length key_a32 \<and>
    Cipher ?ks = Some ?c \<and> hex_DecodeString (ksCipher.Message ?c) = Some [0xc0, 0xff, 0xee] \<and>
    Checksum ?ks = Some ?k \<and>
    hex_DecodeString (ksChecksum.Message ?k) = Some (0 # digest_c0ffee L) \<and>
    sha256_Sum L (take 16 (drop 16 key_a32) @ [0xc0, 0xff, 0xee]) \<noteq> 0 # digest_c0ffee L"
    by (simp add: record_without_kdf_simps key_a32_simps hex_c0ffee hex_roundtrip
        digest_c0ffee_def del: hex_DecodeString.simps hex_EncodeToString.simps)
  with checksum_precedes_cipher [of L ?ks key_a32 key_a32 ?c "[0xc0, 0xff, 0xee]" ?k
      "0 # digest_c0ffee L"]
  have "decryptNorm L
      (?ks\<lparr>Cipher := Some (?c\<lparr>ksCipher.Function := ''rot13'', ksCipher.Params := None\<rparr>)\<rparr>)
      key_a32 = Inl (Err ChecksumMismatch)"
    by blast
  then show "decryptNorm L (record_without_kdf ?m ''rot13'' None ''c0ffee'') key_a32 =
      Inl (Err ChecksumMismatch)"
    by (simp add: record_without_kdf_def)
  let ?ok = "record_without_kdf (hex_EncodeToString (digest_c0ffee L)) ''aes-128-ctr''
    (Some \<lparr>IV = ''000102030405060708090a0b0c0d0e0f''\<rparr>) ''c0ffee''"
  let ?pt = "map2 (XOR) [0xc0, 0xff, 0xee]
    (map (aes_ctr_keystream L (take 16 key_a32)
           [0, 1, 2, 3, 4, 5, 6, 7, 8, 9, 10, 11, 12, 13, 14, 15]) [0..<3])"
  have ok: "decryptNorm L ?ok key_a32 = Inr ?pt"
    by (simp add: decryptNorm_def checksum_def decryptCipher_aes record_without_kdf_simps
        key_a32_simps hex_c0ffee hex_iv16 hex_roundtrip digest_c0ffee_def numeral_3_eq_3
        del: hex_DecodeString.simps hex_EncodeToString.simps)
  then show "\<exists>pt. decryptNorm L ?ok key_a32 = Inr pt" ..
  from ok checksum_precedes_cipher [where L = L and ks = ?ok and pw = key_a32 and pt = ?pt]
  show "\<exists>key c ct cks cs.
          decryptionKey L ?ok key_a32 = Inr key \<and> 32 \<le> length key \<and>
          Cipher ?ok = Some c \<and> hex_DecodeString (ksCipher.Message c) = Some ct \<and>
          Checksum ?ok = Some cks \<and> hex_DecodeString (ksChecksum.Message cks) = Some cs \<and>
          sha256_Sum L (take 16 (drop 16 key) @ ct) = cs"
    by blast
qed

text \<open>
  Claim C4, as amended. For every record whose KDF is absent, the decryption key is the
  normalised passphrase as it is; decryption succeeds iff the passphrase has at least
  32 bytes, the cipher message and the stored checksum decode and the checksum matches,
  and the cipher step succeeds: the cipher function is aes-128-ctr, its parameters are
  present and the IV decodes to 16 bytes.
\<close>

theorem absent_kdf_uses_passphrase:
  assumes "KDF ks = None"
  shows "decryptionKey L ks pw = Inr pw \<and>
         ((\<exists>pt. decryptNorm L ks pw = Inr pt) \<longleftrightarrow>
            32 \<le> length pw \<and>
            (\<exists>c ct cks cs cp iv.
               Cipher ks = Some c \<and> hex_DecodeString (ksCipher.Message c) = Some ct \<and>
               Checksum ks = Some cks \<and> hex_DecodeString (ksChecksum.Message cks) = Some cs \<and>
               sha256_Sum L (take 16 (drop 16 pw) @ ct) = cs \<and>
               ksCipher.Function c = ''aes-128-ctr'' \<and> ksCipher.Params c = Some cp \<and>
               hex_DecodeString (IV cp) = Some iv \<and> length iv = 16))"
proof -
  have key: "decryptionKey L ks pw = Inr pw"
    using assms by (simp add: decryptionKey_def)
  have "\<exists>pt. decryptNorm L ks pw = Inr pt"
    if "32 \<le> length pw" and "Cipher ks = Some c"
      and "hex_DecodeString (ksCipher.Message c) = Some ct"
      and "Checksum ks = Some cks" and "hex_DecodeString (ksChecksum.Message cks) = Some cs"
      and "sha256_Sum L (take 16 (drop 16 pw) @ ct) = cs"
      and "ksCipher.Function c = ''aes-128-ctr''" and "ksCipher.Params c = Some cp"
      and "hex_DecodeString (IV cp) = Some iv" and "length iv = 16"
    for c ct cks cs cp iv
    using that decryptNorm_verified [OF key that(1-5)] by (simp add: decryptCipher_aes)
  moreover have "32 \<le> length pw \<and>
            (\<exists>c ct cks cs cp iv.
               Cipher ks = Some c \<and> hex_DecodeString (ksCipher.Message c) = Some ct \<and>
               Checksum ks = Some cks \<and> hex_DecodeString (ksChecksum.Message cks) = Some cs \<and>
               sha256_Sum L (take 16 (drop 16 pw) @ ct) = cs \<and>
               ksCipher.Function c = ''aes-128-ctr'' \<and> ksCipher.Params c = Some cp \<and>
               hex_DecodeString (IV cp) = Some iv \<and> length iv = 16)"
    if "decryptNorm L ks pw = Inr pt" for pt
  proof -
    from decryptNorm_Inr [OF that] key obtain c ct cks cs where
      *: "32 \<le> length pw" "Cipher ks = Some c"
        "hex_DecodeString (ksCipher.Message c) = Some ct"
        "Checksum ks = Some cks" "hex_DecodeString (ksChecksum.Message cks) = Some cs"
        "sha256_Sum L (take 16 (drop 16 pw) @ ct) = cs"
        "decryptCipher L c pw ct = Inr pt"
      by auto
    from decryptCipher_Inr [OF *(7)] * show ?thesis by blast
  qed
  ultimately show ?thesis using key by blast
qed

text \<open>
  An instance: no KDF, the key of 32 letters a, the matching checksum, aes-128-ctr with
  an IV of 16 bytes: decryption succeeds.
\<close>

theorem absent_kdf_uses_passphrase_witness:
  "\<forall>L. decryptionKey L
          (record_without_kdf (hex_EncodeToString (digest_c0ffee L)) ''aes-128-ctr''
             (Some \<lparr>IV = ''000102030405060708090a0b0c0d0e0f''\<rparr>) ''c0ffee'')
          key_a32 = Inr key_a32 \<and>
       (\<exists>pt. decryptNorm L
          (record_without_kdf (hex_EncodeToString (digest_c0ffee L)) ''aes-128-ctr''
             (Some \<lparr>IV = ''000102030405060708090a0b0c0d0e0f''\<rparr>) ''c0ffee'')
          key_a32 = Inr pt)"
proof (intro allI)
  fix L
  let ?m = "hex_EncodeToString (digest_c0ffee L)"
  let ?cp = "\<lparr>IV = ''000102030405060708090a0b0c0d0e0f''\<rparr>"
  let ?c = "\<lparr>ksCipher.Function = ''aes-128-ctr'', ksCipher.Params = Some ?cp,
    ksCipher.Message = ''c0ffee''\<rparr>"
  let ?k = "\<lparr>ksChecksum.Function = ''sha256'', ksChecksum.Params = Some [],
    ksChecksum.Message = ?m\<rparr>"
  let ?ks = "record_without_kdf ?m ''aes-128-ctr'' (Some ?cp) ''c0ffee''"
  have kdf: "KDF ?ks = None" by (rule record_without_kdf_simps)
  have "Cipher ?ks = Some ?c \<and> hex_DecodeString (ksCipher.Message ?c) = Some [0xc0, 0xff, 0xee] \<and>
    Checksum ?ks = Some ?k \<and> hex_DecodeString (ksChecksum.Message ?k) = Some (digest_c0ffee L) \<and>
    sha256_Sum L (take 16 (drop 16 key_a32) @ [0xc0, 0xff, 0xee]) = digest_c0ffee L \<and>
    ksCipher.Function ?c = ''aes-128-ctr'' \<and> ksCipher.Params ?c = Some ?cp \<and>
    hex_DecodeString (IV ?cp) = Some [0, 1, 2, 3, 4, 5, 6, 7, 8, 9, 10, 11, 12, 13, 14, 15] \<and>
    length [0, 1, 2, 3, 4, 5, 6, 7, 8, 9, 10, 11, 12, 13, 14, 15 :: byte] = 16"
    by (simp add: record_without_kdf_simps key_a32_simps hex_c0ffee hex_iv16 hex_roundtrip
        digest_c0ffee_def del: hex_DecodeString.simps)
  then have "32 \<le> length key_a32 \<and>
            (\<exists>c ct cks cs cp iv.
               Cipher ?ks = Some c \<and> hex_DecodeString (ksCipher.Message c) = Some ct \<and>
               Checksum ?ks = Some cks \<and> hex_DecodeString (ksChecksum.Message cks) = Some cs \<and>
               sha256_Sum L (take 16 (drop 16 key_a32) @ ct) = cs \<and>
               ksCipher.Function c = ''aes-128-ctr'' \<and> ksCipher.Params c = Some cp \<and>
               hex_DecodeString (IV cp) = Some iv \<and> length iv = 16)"
    unfolding key_a32_simps(1) by blast
  with absent_kdf_uses_passphrase [OF kdf, of L key_a32]
  show "decryptionKey L ?ks key_a32 = Inr key_a32 \<and> (\<exists>pt. decryptNorm L ?ks key_a32 = Inr pt)"
    by blast
qed

text \<open>
  The claim as it was stated (success iff the passphrase has 32 bytes and the checksum
  matches) fails on a record whose cipher function is not supported: no KDF, a key of
  32 bytes, the stored checksum equal to the digest, and yet an error. The record is
  given twice: with the checksum written out, for every library whose SHA-256 of the
  16 key bytes and the cipher message is that digest, and with the checksum computed by
  the library, for every library.
\<close>

theorem absent_kdf_counterexample:
  "\<forall>L.
     KDF (record_without_kdf
            ''5b41c5562b9ca93896b70e96db263c589f98c2f0ed4bb3845fd86e3e26864dad''
            ''none'' None ''c0ffee'') = None \<and>
     length key_a32 = 32 \<and>
     hex_DecodeString ''5b41c5562b9ca93896b70e96db263c589f98c2f0ed4bb3845fd86e3e26864dad'' =
       Some (sha256_Sum
               (with_sha256 (replicate 16 0x61 @ [0xc0, 0xff, 0xee]) sha256_a16_c0ffee L)
               (take 16 (drop 16 key_a32) @ [0xc0, 0xff, 0xee])) \<and>
     decryptNorm
       (with_sha256 (replicate 16 0x61 @ [0xc0, 0xff, 0xee]) sha256_a16_c0ffee L)
       (record_without_kdf
          ''5b41c5562b9ca93896b70e96db263c589f98c2f0ed4bb3845fd86e3e26864dad''
          ''none'' None ''c0ffee'')
       key_a32 = Inl (Err (UnsupportedCipher ''none'')) \<and>
     hex_DecodeString (hex_EncodeToString (digest_c0ffee L)) =
       Some (sha256_Sum L (take 16 (drop 16 key_a32) @ [0xc0, 0xff, 0xee])) \<and>
     decryptNorm L
       (record_without_kdf (hex_EncodeToString (digest_c0ffee L)) ''none'' None ''c0ffee'')
       key_a32 = Inl (Err (UnsupportedCipher ''none''))"
  by (simp add: decryptNorm_def checksum_def decryptCipher_def record_without_kdf_simps
      key_a32_simps hex_c0ffee hex_roundtrip hex_sha256_a16_c0ffee digest_c0ffee_def
      with_sha256_def del: hex_DecodeString.simps)

text \<open>
  Claim C5, as amended. Unknown identifiers are rejected with an error that carries
  them: for every record whose KDF and KDF parameters are present and whose salt decodes
  from hexadecimal, a KDF function that is neither scrypt nor pbkdf2 gives
  \<open>UnsupportedKDF\<close> with that function, and the function pbkdf2 with a PRF other than
  hmac-sha256 gives \<open>UnsupportedPRF\<close> with that PRF; for every record whose checksum
  has been verified, a cipher function other than aes-128-ctr gives \<open>UnsupportedCipher\<close>
  with that function.
\<close>

theorem unsupported_identifiers:
  "(KDF ks = Some k \<and> ksKDF.Params k = Some kp \<and> hex_DecodeString (Salt kp) = Some salt \<and>
    ksKDF.Function k \<noteq> ''scrypt'' \<and> ksKDF.Function k \<noteq> ''pbkdf2'' \<longrightarrow>
      decryptNorm L ks pw = Inl (Err (UnsupportedKDF (ksKDF.Function k)))) \<and>
   (KDF ks = Some k \<and> ksKDF.Params k = Some kp \<and> hex_DecodeString (Salt kp) = Some salt \<and>
    ksKDF.Function k = ''pbkdf2'' \<and> PRF kp \<noteq> ''hmac-sha256'' \<longrightarrow>
      decryptNorm L ks pw = Inl (Err (UnsupportedPRF (PRF kp)))) \<and>
   (decryptionKey L ks pw = Inr key \<and> 32 \<le> length key \<and>
    Cipher ks = Some c \<and> hex_DecodeString (ksCipher.Message c) = Some ct \<and>
    Checksum ks = Some cks \<and> hex_DecodeString (ksChecksum.Message cks) = Some cs \<and>
    sha256_Sum L (take 16 (drop 16 key) @ ct) = cs \<and>
    ksCipher.Function c \<noteq> ''aes-128-ctr'' \<longrightarrow>
      decryptNorm L ks pw = Inl (Err (UnsupportedCipher (ksCipher.Function c))))"
  by (simp add: decryptNorm_def decryptionKey_def checksum_def decryptCipher_def)

text \<open>
  Instances: the KDF function foo; pbkdf2 with the PRF hmac-sha1; and, on a record
  without KDF whose checksum matches, the cipher function none.
\<close>

theorem unsupported_identifiers_witness:
  "\<forall>L pw.
     decryptNorm L (record_with_kdf ''foo'' (Some (zero_ksKDFParams\<lparr>Salt := ''c0ffee''\<rparr>))) pw =
       Inl (Err (UnsupportedKDF ''foo'')) \<and>
     decryptNorm L (record_with_kdf ''pbkdf2''
         (Some (zero_ksKDFParams\<lparr>Salt := ''c0ffee'', PRF := ''hmac-sha1''\<rparr>))) pw =
       Inl (Err (UnsupportedPRF ''hmac-sha1'')) \<and>
     decryptNorm L
         (record_without_kdf (hex_EncodeToString (digest_c0ffee L)) ''none'' None ''c0ffee'')
         key_a32 = Inl (Err (UnsupportedCipher ''none''))"
proof (intro allI conjI)
  fix L pw
  let ?p1 = "zero_ksKDFParams\<lparr>Salt := ''c0ffee''\<rparr>"
  let ?k1 = "\<lparr>ksKDF.Function = ''foo'', ksKDF.Params = Some ?p1, ksKDF.Message = []\<rparr>"
  have "KDF (record_with_kdf ''foo'' (Some ?p1)) = Some ?k1 \<and> ksKDF.Params ?k1 = Some ?p1 \<and>
    hex_DecodeString (Salt ?p1) = Some [0xc0, 0xff, 0xee] \<and>
    ksKDF.Function ?k1 \<noteq> ''scrypt'' \<and> ksKDF.Function ?k1 \<noteq> ''pbkdf2''"
    by (simp add: record_with_kdf_simps hex_c0ffee del: hex_DecodeString.simps)
  with unsupported_identifiers [of "record_with_kdf ''foo'' (Some ?p1)" ?k1 ?p1
      "[0xc0, 0xff, 0xee]" L pw]
  show "decryptNorm L (record_with_kdf ''foo'' (Some ?p1)) pw = Inl (Err (UnsupportedKDF ''foo''))"
    by simp
  let ?p2 = "zero_ksKDFParams\<lparr>Salt := ''c0ffee'', PRF := ''hmac-sha1''\<rparr>"
  let ?k2 = "\<lparr>ksKDF.Function = ''pbkdf2'', ksKDF.Params = Some ?p2, ksKDF.Message = []\<rparr>"
  have "KDF (record_with_kdf ''pbkdf2'' (Some ?p2)) = Some ?k2 \<and> ksKDF.Params ?k2 = Some ?p2 \<and>
    hex_DecodeString (Salt ?p2) = Some [0xc0, 0xff, 0xee] \<and>
    ksKDF.Function ?k2 = ''pbkdf2'' \<and> PRF ?p2 \<noteq> ''hmac-sha256''"
    by (simp add: record_with_kdf_simps hex_c0ffee del: hex_DecodeString.simps)
  with unsupported_identifiers [of "record_with_kdf ''pbkdf2'' (Some ?p2)" ?k2 ?p2
      "[0xc0, 0xff, 0xee]" L pw]
  show "decryptNorm L (record_with_kdf ''pbkdf2'' (Some ?p2)) pw =
      Inl (Err (UnsupportedPRF ''hmac-sha1''))"
    by simp
  let ?m = "hex_EncodeToString (digest_c0ffee L)"
  let ?c = "\<lparr>ksCipher.Function = ''none'', ksCipher.Params = None,
    ksCipher.Message = ''c0ffee''\<rparr>"
  let ?ck = "\<lparr>ksChecksum.Function = ''sha256'', ksChecksum.Params = Some [],
    ksChecksum.Message = ?m\<rparr>"
  let ?ks = "record_without_kdf ?m ''none'' None ''c0ffee''"
  have "decryptionKey L ?ks key_a32 = Inr key_a32 \<and> 32 \<le> length key_a32 \<and>
    Cipher ?ks = Some ?c \<and> hex_DecodeString (ksCipher.Message ?c) = Some [0xc0, 0xff, 0xee] \<and>
    Checksum ?ks = Some ?ck \<and>
    hex_DecodeString (ksChecksum.Message ?ck) = Some (digest_c0ffee L) \<and>
    sha256_Sum L (take 16 (drop 16 key_a32) @ [0xc0, 0xff, 0xee]) = digest_c0ffee L \<and>
    ksCipher.Function ?c \<noteq> ''aes-128-ctr''"
    by (simp add: record_without_kdf_simps key_a32_simps hex_c0ffee hex_roundtrip
        digest_c0ffee_def del: hex_DecodeString.simps hex_EncodeToString.simps)
  with unsupported_identifiers [where L = L and ks = ?ks and pw = key_a32 and key = key_a32
      and c = ?c and ct = "[0xc0, 0xff, 0xee]" and cks = ?ck and cs = "digest_c0ffee L"]
  show "decryptNorm L ?ks key_a32 = Inl (Err (UnsupportedCipher ''none''))"
    by simp
qed

text \<open>
  The claim as it was stated (every record with an unknown KDF function fails with
  \<open>UnsupportedKDF\<close>) fails on a record whose salt is no hexadecimal string: the salt
  is decoded before the function is looked at. The record is given as the map that
  \<^verbatim>\<open>Decrypt\<close> receives and as the structure it is parsed into.
\<close>

theorem unsupported_kdf_counterexample:
  "\<forall>L passphrase pw.
     json_Unmarshal (members
       (json_with_kdf ''foo'' (JObject [(''salt'', JString ''zz''), (''prf'', JString [])]))) =
       Some (record_with_kdf ''foo'' (Some (zero_ksKDFParams\<lparr>Salt := ''zz'', PRF := []\<rparr>))) \<and>
     decryptNorm L
       (record_with_kdf ''foo'' (Some (zero_ksKDFParams\<lparr>Salt := ''zz'', PRF := []\<rparr>))) pw =
       Inl (Err InvalidKDFSalt) \<and>
     Decrypt L
       (Some (json_with_kdf ''foo'' (JObject [(''salt'', JString ''zz''), (''prf'', JString [])])))
       passphrase = Inl (Err InvalidKDFSalt)"
proof (intro allI)
  fix L passphrase pw
  let ?m = "json_with_kdf ''foo'' (JObject [(''salt'', JString ''zz''), (''prf'', JString [])])"
  let ?ks = "record_with_kdf ''foo'' (Some (zero_ksKDFParams\<lparr>Salt := ''zz'', PRF := []\<rparr>))"
  have salt: "decryptNorm L ?ks x = Inl (Err InvalidKDFSalt)" for x
    by (simp add: decryptNorm_def decryptionKey_def record_with_kdf_simps hex_zz
        del: hex_DecodeString.simps)
  have marshal: "json_Marshal ?m = Some (members ?m)"
    by (rule parse_json_with_kdf)
  have unmarshal: "json_Unmarshal (members ?m) = Some ?ks"
    by (rule parse_json_with_kdf)
  have "Decrypt L (Some ?m) passphrase = Inl (Err InvalidKDFSalt)"
    using Decrypt_parsed [OF marshal unmarshal record_with_kdf_simps(2) record_with_kdf_simps(3)]
    by (simp add: salt)
  with salt unmarshal
  show "json_Unmarshal (members ?m) = Some ?ks \<and>
     decryptNorm L ?ks pw = Inl (Err InvalidKDFSalt) \<and>
     Decrypt L (Some ?m) passphrase = Inl (Err InvalidKDFSalt)"
    by simp
qed

text \<open>
  Claim C6. For every record and normalised passphrase: when the decryption key (derived
  by the KDF, or the passphrase itself) has fewer than 32 bytes, \<^verbatim>\<open>decryptNorm\<close> returns
  \<open>DerivedKeyTooShort\<close>. The check comes after the key derivation (a failure of the
  derivation is returned as it is) and before the checksum and the cipher: the result
  does not depend on the checksum and cipher descriptors, which may even be absent.
\<close>

theorem derived_key_too_short:
  "(decryptionKey L ks pw = Inr key \<and> length key < 32 \<longrightarrow>
      (\<forall>ck ci. decryptNorm L (ks\<lparr>Checksum := ck, Cipher := ci\<rparr>) pw =
                Inl (Err DerivedKeyTooShort))) \<and>
   (decryptionKey L ks pw = Inl f \<longrightarrow> decryptNorm L ks pw = Inl f)"
  by (simp add: decryptNorm_def decryptionKey_KDF_only)

text \<open>
  Instances: a passphrase of three bytes used as the key, with any checksum and cipher
  descriptors; a key of 16 bytes derived by scrypt (with dklen 16); and a KDF whose salt
  does not decode.
\<close>

theorem derived_key_too_short_witness:
  "\<forall>L ck ci pw.
     decryptNorm L \<lparr>KDF = None, Checksum = ck, Cipher = ci\<rparr> [1, 2, 3] =
       Inl (Err DerivedKeyTooShort) \<and>
     decryptNorm (with_scrypt_zeros L)
       (record_with_kdf ''scrypt'' (Some (zero_ksKDFParams\<lparr>Salt := ''c0ffee'', DKLen := 16\<rparr>)))
       pw = Inl (Err DerivedKeyTooShort) \<and>
     decryptNorm L (record_with_kdf ''scrypt'' (Some (zero_ksKDFParams\<lparr>Salt := ''zz''\<rparr>))) pw =
       Inl (Err InvalidKDFSalt)"
proof (intro allI conjI)
  fix L ck ci pw
  let ?ks = "\<lparr>KDF = None, Checksum = None, Cipher = None\<rparr>"
  have "decryptionKey L ?ks [1, 2, 3] = Inr [1, 2, 3] \<and> length [1, 2, 3 :: byte] < 32"
    by (simp add: decryptionKey_def)
  with derived_key_too_short [of L ?ks "[1, 2, 3]" "[1, 2, 3]"]
  have "decryptNorm L (?ks\<lparr>Checksum := ck, Cipher := ci\<rparr>) [1, 2, 3] =
      Inl (Err DerivedKeyTooShort)"
    by blast
  then show "decryptNorm L \<lparr>KDF = None, Checksum = ck, Cipher = ci\<rparr> [1, 2, 3] =
      Inl (Err DerivedKeyTooShort)"
    by simp
  let ?L = "with_scrypt_zeros L"
  let ?kd = "record_with_kdf ''scrypt''
    (Some (zero_ksKDFParams\<lparr>Salt := ''c0ffee'', DKLen := 16\<rparr>))"
  have "decryptionKey ?L ?kd pw = Inr (replicate 16 0) \<and>
    length (replicate 16 (0 :: byte)) < 32"
    by (simp add: decryptionKey_def record_with_kdf_simps hex_c0ffee with_scrypt_zeros_def
        del: hex_DecodeString.simps)
  with derived_key_too_short [of ?L ?kd pw "replicate 16 0"]
  have "decryptNorm ?L (?kd\<lparr>Checksum := Checksum ?kd, Cipher := Cipher ?kd\<rparr>) pw =
      Inl (Err DerivedKeyTooShort)"
    by blast
  then show "decryptNorm ?L ?kd pw = Inl (Err DerivedKeyTooShort)"
    by simp
  let ?ks' = "record_with_kdf ''scrypt'' (Some (zero_ksKDFParams\<lparr>Salt := ''zz''\<rparr>))"
  have "decryptionKey L ?ks' pw = Inl (Err InvalidKDFSalt)"
    by (simp add: decryptionKey_def record_with_kdf_simps hex_zz del: hex_DecodeString.simps)
  with derived_key_too_short [of L ?ks' pw _ "Err InvalidKDFSalt"]
  show "decryptNorm L ?ks' pw = Inl (Err InvalidKDFSalt)"
    by blast
qed

text \<open>
  Claim C7. Structural failures are returned at once, whatever the passphrase, its
  normalisations and the KDF are: a nil map gives \<open>NoData\<close>; a map that cannot be
  marshalled, or whose JSON does not fit the keystore structure, gives
  \<open>MalformedRecord\<close>; a parsed record without checksum gives \<open>MissingChecksum\<close>, and
  one with a checksum and without cipher gives \<open>MissingCipher\<close>, whether or not a KDF
  is present.
\<close>

theorem structural_failures:
  "Decrypt L None passphrase = Inl (Err NoData) \<and>
   (json_Marshal m = None \<longrightarrow> Decrypt L (Some m) passphrase = Inl (Err MalformedRecord)) \<and>
   (json_Marshal m = Some b \<and> json_Unmarshal b = None \<longrightarrow>
      Decrypt L (Some m) passphrase = Inl (Err MalformedRecord)) \<and>
   (json_Marshal m = Some b \<and> json_Unmarshal b = Some ks \<and> Checksum ks = None \<longrightarrow>
      Decrypt L (Some m) passphrase = Inl (Err MissingChecksum)) \<and>
   (json_Marshal m = Some b \<and> json_Unmarshal b = Some ks \<and> Checksum ks \<noteq> None \<and>
    Cipher ks = None \<longrightarrow>
      Decrypt L (Some m) passphrase = Inl (Err MissingCipher))"
  by (auto simp: Decrypt_def)

text \<open>
  Instances: a map that holds a value JSON cannot encode; a kdf member that is a
  number; a map with only a kdf member; a map with a kdf and a checksum member.
\<close>

theorem structural_failures_witness:
  "\<forall>L passphrase.
     Decrypt L (Some [(''checksum'', JUnsupported)]) passphrase = Inl (Err MalformedRecord) \<and>
     Decrypt L (Some [(''kdf'', JInt 5)]) passphrase = Inl (Err MalformedRecord) \<and>
     Decrypt L (Some [(''kdf'', JObject [(''function'', JString ''scrypt'')])]) passphrase =
       Inl (Err MissingChecksum) \<and>
     Decrypt L (Some [(''kdf'', JObject [(''function'', JString ''scrypt'')]),
                      (''checksum'', JObject [(''message'', JString ''c0ffee'')])]) passphrase =
       Inl (Err MissingCipher)"
proof (intro allI conjI)
  fix L passphrase
  let ?m1 = "[(''checksum'', JUnsupported)]"
  have "json_Marshal ?m1 = None" by (simp add: json_Marshal_def)
  with structural_failures [of L passphrase ?m1]
  show "Decrypt L (Some ?m1) passphrase = Inl (Err MalformedRecord)" by blast
  let ?m2 = "[(''kdf'', JInt 5)]"
  have "json_Marshal ?m2 = Some ?m2 \<and> json_Unmarshal ?m2 = None"
    by (simp add: json_defs)
  with structural_failures [of L passphrase ?m2 ?m2]
  show "Decrypt L (Some ?m2) passphrase = Inl (Err MalformedRecord)" by blast
  let ?k = "\<lparr>ksKDF.Function = ''scrypt'', ksKDF.Params = None, ksKDF.Message = []\<rparr>"
  let ?m3 = "[(''kdf'', JObject [(''function'', JString ''scrypt'')])]"
  let ?ks3 = "\<lparr>KDF = Some ?k, Checksum = None, Cipher = None\<rparr>"
  have "json_Marshal ?m3 = Some ?m3 \<and> json_Unmarshal ?m3 = Some ?ks3 \<and> Checksum ?ks3 = None"
    by (simp add: json_defs)
  with structural_failures [of L passphrase ?m3 ?m3 ?ks3]
  show "Decrypt L (Some ?m3) passphrase = Inl (Err MissingChecksum)" by blast
  let ?m4 = "[(''kdf'', JObject [(''function'', JString ''scrypt'')]),
              (''checksum'', JObject [(''message'', JString ''c0ffee'')])]"
  let ?b4 = "[(''checksum'', JObject [(''message'', JString ''c0ffee'')]),
              (''kdf'', JObject [(''function'', JString ''scrypt'')])]"
  let ?ks4 = "\<lparr>KDF = Some ?k,
    Checksum = Some \<lparr>ksChecksum.Function = [], ksChecksum.Params = None,
      ksChecksum.Message = ''c0ffee''\<rparr>,
    Cipher = None\<rparr>"
  have "json_Marshal ?m4 = Some ?b4 \<and> json_Unmarshal ?b4 = Some ?ks4 \<and>
    Checksum ?ks4 \<noteq> None \<and> Cipher ?ks4 = None"
    by (simp add: json_defs)
  with structural_failures [of L passphrase ?m4 ?b4 ?ks4]
  show "Decrypt L (Some ?m4) passphrase = Inl (Err MissingCipher)" by blast
qed

text \<open>
  Claim C8. For every record with the cipher function aes-128-ctr whose checksum has
  been verified: an IV that does not decode from hexadecimal gives \<open>InvalidIV\<close>; an IV
  that decodes to 16 bytes gives the cipher message XORed with the AES counter-mode key
  stream for the first 16 bytes of the key and that IV; and every plaintext returned is
  of this form and has the length of the cipher message.
\<close>

theorem aes_128_ctr_decryption:
  assumes "decryptionKey L ks pw = Inr key" and "32 \<le> length key"
    and "Cipher ks = Some c" and "hex_DecodeString (ksCipher.Message c) = Some ct"
    and "Checksum ks = Some cks" and "hex_DecodeString (ksChecksum.Message cks) = Some cs"
    and "sha256_Sum L (take 16 (drop 16 key) @ ct) = cs"
    and "ksCipher.Function c = ''aes-128-ctr''"
  shows "(\<forall>cp. ksCipher.Params c = Some cp \<and> hex_DecodeString (IV cp) = None \<longrightarrow>
            decryptNorm L ks pw = Inl (Err InvalidIV)) \<and>
         (\<forall>cp iv. ksCipher.Params c = Some cp \<and> hex_DecodeString (IV cp) = Some iv \<and>
            length iv = 16 \<longrightarrow>
            decryptNorm L ks pw =
              Inr (map2 (XOR) ct (map (aes_ctr_keystream L (take 16 key) iv) [0..<length ct]))) \<and>
         (\<forall>pt. decryptNorm L ks pw = Inr pt \<longrightarrow>
            length pt = length ct \<and>
            (\<exists>cp iv. ksCipher.Params c = Some cp \<and> hex_DecodeString (IV cp) = Some iv \<and>
               pt = map2 (XOR) ct
                      (map (aes_ctr_keystream L (take 16 key) iv) [0..<length ct])))"
proof -
  have "decryptNorm L ks pw = decryptCipher L c key ct"
    using decryptNorm_verified [OF assms(1-6)] assms(7) by simp
  then show ?thesis
    using assms(2,8) by (auto simp: decryptCipher_aes split: option.splits if_splits)
qed

text \<open>
  Instances, on the record without KDF whose checksum matches: the IV xyz, and an IV
  of 16 bytes, for which the three bytes of the cipher message give three bytes.
\<close>

theorem aes_128_ctr_decryption_witness:
  "\<forall>L. decryptNorm L
          (record_without_kdf (hex_EncodeToString (digest_c0ffee L)) ''aes-128-ctr''
             (Some \<lparr>IV = ''zz''\<rparr>) ''c0ffee'')
          key_a32 = Inl (Err InvalidIV) \<and>
       decryptNorm L
          (record_without_kdf (hex_EncodeToString (digest_c0ffee L)) ''aes-128-ctr''
             (Some \<lparr>IV = ''000102030405060708090a0b0c0d0e0f''\<rparr>) ''c0ffee'')
          key_a32 =
         Inr [0xc0 XOR aes_ctr_keystream L (replicate 16 0x61)
                         [0, 1, 2, 3, 4, 5, 6, 7, 8, 9, 10, 11, 12, 13, 14, 15] 0,
              0xff XOR aes_ctr_keystream L (replicate 16 0x61)
                         [0, 1, 2, 3, 4, 5, 6, 7, 8, 9, 10, 11, 12, 13, 14, 15] 1,
              0xee XOR aes_ctr_keystream L (replicate 16 0x61)
                         [0, 1, 2, 3, 4, 5, 6, 7, 8, 9, 10, 11, 12, 13, 14, 15] 2]"
proof (intro allI conjI)
  fix L
  let ?m = "hex_EncodeToString (digest_c0ffee L)"
  let ?c = "\<lambda>iv. \<lparr>ksCipher.Function = ''aes-128-ctr'', ksCipher.Params = Some \<lparr>IV = iv\<rparr>,
    ksCipher.Message = ''c0ffee''\<rparr>"
  let ?k = "\<lparr>ksChecksum.Function = ''sha256'', ksChecksum.Params = Some [],
    ksChecksum.Message = ?m\<rparr>"
  let ?ks = "\<lambda>iv. record_without_kdf ?m ''aes-128-ctr'' (Some \<lparr>IV = iv\<rparr>) ''c0ffee''"
  have key: "decryptionKey L (?ks iv) key_a32 = Inr key_a32" for iv
    by (rule record_without_kdf_simps)
  have len: "32 \<le> length key_a32" by (simp add: key_a32_simps)
  have ci: "Cipher (?ks iv) = Some (?c iv)" for iv
    by (rule record_without_kdf_simps)
  have ct: "hex_DecodeString (ksCipher.Message (?c iv)) = Some [0xc0, 0xff, 0xee]" for iv
    by (simp add: hex_c0ffee del: hex_DecodeString.simps)
  have ck: "Checksum (?ks iv) = Some ?k" for iv
    by (rule record_without_kdf_simps)
  have cs: "hex_DecodeString (ksChecksum.Message ?k) = Some (digest_c0ffee L)"
    by (simp add: hex_roundtrip)
  have eq: "sha256_Sum L (take 16 (drop 16 key_a32) @ [0xc0, 0xff, 0xee]) = digest_c0ffee L"
    by (simp add: digest_c0ffee_def key_a32_simps)
  have f: "ksCipher.Function (?c iv) = ''aes-128-ctr''" for iv
    by simp
  have zz: "ksCipher.Params (?c ''zz'') = Some \<lparr>IV = ''zz''\<rparr> \<and>
      hex_DecodeString (IV \<lparr>IV = ''zz''\<rparr>) = None"
    by (simp add: hex_zz del: hex_DecodeString.simps)
  with aes_128_ctr_decryption [OF key len ci ct ck cs eq f, of "''zz''"]
  show "decryptNorm L (?ks ''zz'') key_a32 = Inl (Err InvalidIV)"
    by blast
  let ?iv = "[0, 1, 2, 3, 4, 5, 6, 7, 8, 9, 10, 11, 12, 13, 14, 15 :: byte]"
  have iv: "ksCipher.Params (?c ''000102030405060708090a0b0c0d0e0f'') =
        Some \<lparr>IV = ''000102030405060708090a0b0c0d0e0f''\<rparr> \<and>
      hex_DecodeString (IV \<lparr>IV = ''000102030405060708090a0b0c0d0e0f''\<rparr>) = Some ?iv \<and>
      length ?iv = 16"
    by (simp add: hex_iv16 del: hex_DecodeString.simps)
  with aes_128_ctr_decryption [OF key len ci ct ck cs eq f,
      of "''000102030405060708090a0b0c0d0e0f''"]
  have "decryptNorm L (?ks ''000102030405060708090a0b0c0d0e0f'') key_a32 =
      Inr (map2 (XOR) [0xc0, 0xff, 0xee]
             (map (aes_ctr_keystream L (take 16 key_a32) ?iv) [0..<length [0xc0, 0xff, 0xee :: byte]]))"
    by blast
  then show "decryptNorm L (?ks ''000102030405060708090a0b0c0d0e0f'') key_a32 =
         Inr [0xc0 XOR aes_ctr_keystream L (replicate 16 0x61) ?iv 0,
              0xff XOR aes_ctr_keystream L (replicate 16 0x61) ?iv 1,
              0xee XOR aes_ctr_keystream L (replicate 16 0x61) ?iv 2]"
    by (simp add: key_a32_simps numeral_2_eq_2)
qed

text \<open>
  Claim C9. Some inputs make \<^verbatim>\<open>Decrypt\<close> panic instead of returning an error: every
  record whose KDF is present and whose KDF parameters are nil makes \<^verbatim>\<open>decryptNorm\<close>
  read the salt through a nil pointer, and so \<^verbatim>\<open>Decrypt\<close> panics on it; likewise every
  record with the cipher function aes-128-ctr, a verified checksum and nil cipher
  parameters panics where the IV is read.
\<close>

theorem nil_params_panic:
  "(KDF ks = Some k \<and> ksKDF.Params k = None \<longrightarrow>
      decryptNorm L ks pw = Inl (Panic NilPointerDereference) \<and>
      (json_Marshal m = Some b \<and> json_Unmarshal b = Some ks \<and> Checksum ks \<noteq> None \<and>
       Cipher ks \<noteq> None \<longrightarrow>
         Decrypt L (Some m) passphrase = Inl (Panic NilPointerDereference))) \<and>
   (decryptionKey L ks pw = Inr key \<and> 32 \<le> length key \<and>
    Cipher ks = Some c \<and> hex_DecodeString (ksCipher.Message c) = Some ct \<and>
    Checksum ks = Some cks \<and> hex_DecodeString (ksChecksum.Message cks) = Some cs \<and>
    sha256_Sum L (take 16 (drop 16 key) @ ct) = cs \<and>
    ksCipher.Function c = ''aes-128-ctr'' \<and> ksCipher.Params c = None \<longrightarrow>
      decryptNorm L ks pw = Inl (Panic NilPointerDereference) \<and>
      (json_Marshal m = Some b \<and> json_Unmarshal b = Some ks \<and>
       pw = bytes_of_string (normPassphrase L passphrase) \<longrightarrow>
         Decrypt L (Some m) passphrase = Inl (Panic NilPointerDereference)))"
proof (intro conjI impI)
  assume a: "KDF ks = Some k \<and> ksKDF.Params k = None"
  then have p: "decryptNorm L ks x = Inl (Panic NilPointerDereference)" for x
    by (simp add: decryptNorm_def decryptionKey_def)
  then show "decryptNorm L ks pw = Inl (Panic NilPointerDereference)" .
  assume "json_Marshal m = Some b \<and> json_Unmarshal b = Some ks \<and> Checksum ks \<noteq> None \<and>
       Cipher ks \<noteq> None"
  then show "Decrypt L (Some m) passphrase = Inl (Panic NilPointerDereference)"
    using Decrypt_parsed [of m b ks L passphrase] by (simp add: p)
next
  assume a: "decryptionKey L ks pw = Inr key \<and> 32 \<le> length key \<and>
    Cipher ks = Some c \<and> hex_DecodeString (ksCipher.Message c) = Some ct \<and>
    Checksum ks = Some cks \<and> hex_DecodeString (ksChecksum.Message cks) = Some cs \<and>
    sha256_Sum L (take 16 (drop 16 key) @ ct) = cs \<and>
    ksCipher.Function c = ''aes-128-ctr'' \<and> ksCipher.Params c = None"
  then have "decryptNorm L ks pw = decryptCipher L c key ct"
    using decryptNorm_verified [of L ks pw key c ct cks cs] by simp
  with a show p: "decryptNorm L ks pw = Inl (Panic NilPointerDereference)"
    by (simp add: decryptCipher_aes)
  assume "json_Marshal m = Some b \<and> json_Unmarshal b = Some ks \<and>
       pw = bytes_of_string (normPassphrase L passphrase)"
  with a p show "Decrypt L (Some m) passphrase = Inl (Panic NilPointerDereference)"
    using Decrypt_parsed [of m b ks L passphrase] by simp
qed

text \<open>
  Instances: a map whose kdf member has \<^verbatim>\<open>"params": null\<close>, and one whose kdf member has
  no params at all, for every passphrase; and a map without kdf whose cipher member
  has \<^verbatim>\<open>"params": null\<close>, with the passphrase of 32 letters a left as it is by the
  normalisation and the matching checksum.
\<close>

theorem nil_params_panic_witness:
  "\<forall>L passphrase.
     Decrypt L (Some (json_with_kdf ''scrypt'' JNull)) passphrase =
       Inl (Panic NilPointerDereference) \<and>
     Decrypt L (Some [(''kdf'', JObject [(''function'', JString ''scrypt'')]),
                      (''checksum'', JObject [(''message'', JString [])]),
                      (''cipher'', JObject [(''message'', JString [])])]) passphrase =
       Inl (Panic NilPointerDereference) \<and>
     Decrypt (with_normalisations (\<lambda>s. s) (\<lambda>s. s) L)
       (Some (json_without_kdf (hex_EncodeToString (digest_c0ffee L)) ''aes-128-ctr'' JNull
                ''c0ffee''))
       passphrase_a32 = Inl (Panic NilPointerDereference)"
proof (intro allI conjI)
  fix L passphrase
  let ?m = "json_with_kdf ''scrypt'' JNull"
  let ?kd = "\<lparr>ksKDF.Function = ''scrypt'', ksKDF.Params = None, ksKDF.Message = []\<rparr>"
  have "KDF (record_with_kdf ''scrypt'' None) = Some ?kd \<and> ksKDF.Params ?kd = None \<and>
    json_Marshal ?m = Some (members ?m) \<and>
    json_Unmarshal (members ?m) = Some (record_with_kdf ''scrypt'' None) \<and>
    Checksum (record_with_kdf ''scrypt'' None) \<noteq> None \<and>
    Cipher (record_with_kdf ''scrypt'' None) \<noteq> None"
    by (simp add: record_with_kdf_simps parse_json_with_kdf)
  with nil_params_panic [where ks = "record_with_kdf ''scrypt'' None" and k = ?kd and m = ?m
      and b = "members ?m" and L = L and passphrase = passphrase]
  show "Decrypt L (Some ?m) passphrase = Inl (Panic NilPointerDereference)"
    by blast
  let ?m2 = "[(''kdf'', JObject [(''function'', JString ''scrypt'')]),
              (''checksum'', JObject [(''message'', JString [])]),
              (''cipher'', JObject [(''message'', JString [])])]"
  let ?b2 = "[(''checksum'', JObject [(''message'', JString [])]),
              (''cipher'', JObject [(''message'', JString [])]),
              (''kdf'', JObject [(''function'', JString ''scrypt'')])]"
  let ?ks2 = "\<lparr>KDF = Some ?kd,
    Checksum = Some \<lparr>ksChecksum.Function = [], ksChecksum.Params = None,
      ksChecksum.Message = []\<rparr>,
    Cipher = Some \<lparr>ksCipher.Function = [], ksCipher.Params = None, ksCipher.Message = []\<rparr>\<rparr>"
  have "KDF ?ks2 = Some ?kd \<and> ksKDF.Params ?kd = None \<and>
    json_Marshal ?m2 = Some ?b2 \<and> json_Unmarshal ?b2 = Some ?ks2 \<and>
    Checksum ?ks2 \<noteq> None \<and> Cipher ?ks2 \<noteq> None"
    by (simp add: json_defs)
  with nil_params_panic [where ks = ?ks2 and k = ?kd and m = ?m2 and b = ?b2 and L = L
      and passphrase = passphrase]
  show "Decrypt L (Some ?m2) passphrase = Inl (Panic NilPointerDereference)"
    by blast
  let ?L = "with_normalisations (\<lambda>s. s) (\<lambda>s. s) L"
  let ?cm = "hex_EncodeToString (digest_c0ffee L)"
  let ?m' = "json_without_kdf ?cm ''aes-128-ctr'' JNull ''c0ffee''"
  let ?ks = "record_without_kdf ?cm ''aes-128-ctr'' None ''c0ffee''"
  let ?c = "\<lparr>ksCipher.Function = ''aes-128-ctr'', ksCipher.Params = None,
    ksCipher.Message = ''c0ffee''\<rparr>"
  let ?k = "\<lparr>ksChecksum.Function = ''sha256'', ksChecksum.Params = Some [],
    ksChecksum.Message = ?cm\<rparr>"
  have "(decryptionKey ?L ?ks key_a32 = Inr key_a32 \<and> 32 \<le> length key_a32 \<and>
    Cipher ?ks = Some ?c \<and> hex_DecodeString (ksCipher.Message ?c) = Some [0xc0, 0xff, 0xee] \<and>
    Checksum ?ks = Some ?k \<and> hex_DecodeString (ksChecksum.Message ?k) = Some (digest_c0ffee L) \<and>
    sha256_Sum ?L (take 16 (drop 16 key_a32) @ [0xc0, 0xff, 0xee]) = digest_c0ffee L \<and>
    ksCipher.Function ?c = ''aes-128-ctr'' \<and> ksCipher.Params ?c = None) \<and>
    (json_Marshal ?m' = Some (members ?m') \<and> json_Unmarshal (members ?m') = Some ?ks \<and>
     key_a32 = bytes_of_string (normPassphrase ?L passphrase_a32))"
    by (simp add: record_without_kdf_simps key_a32_simps hex_c0ffee hex_roundtrip
        digest_c0ffee_def parse_json_without_kdf with_normalisations_simps bytes_passphrase_a32
        del: hex_DecodeString.simps hex_EncodeToString.simps)
  with nil_params_panic [where ks = ?ks and L = ?L and pw = key_a32 and key = key_a32
      and c = ?c and ct = "[0xc0, 0xff, 0xee]" and cks = ?k and cs = "digest_c0ffee L"
      and m = ?m' and b = "members ?m'" and passphrase = passphrase_a32]
  show "Decrypt ?L (Some ?m') passphrase_a32 = Inl (Panic NilPointerDereference)"
    by blast
qed

text \<open>
  Claim C10. The length of the decoded IV is not checked: every record with the cipher
  function aes-128-ctr, a verified checksum and an IV that decodes to a number of bytes
  other than 16 makes \<^verbatim>\<open>cipher.NewCTR\<close> panic, and so \<^verbatim>\<open>Decrypt\<close>; \<open>InvalidIV\<close> is
  returned only when the IV does not decode from hexadecimal.
\<close>

theorem iv_length_panic:
  "(decryptionKey L ks pw = Inr key \<and> 32 \<le> length key \<and>
    Cipher ks = Some c \<and> hex_DecodeString (ksCipher.Message c) = Some ct \<and>
    Checksum ks = Some cks \<and> hex_DecodeString (ksChecksum.Message cks) = Some cs \<and>
    sha256_Sum L (take 16 (drop 16 key) @ ct) = cs \<and>
    ksCipher.Function c = ''aes-128-ctr'' \<and> ksCipher.Params c = Some cp \<and>
    hex_DecodeString (IV cp) = Some iv \<and> length iv \<noteq> 16 \<longrightarrow>
      decryptNorm L ks pw = Inl (Panic IVLengthNotBlockSize) \<and>
      (json_Marshal m = Some b \<and> json_Unmarshal b = Some ks \<and>
       pw = bytes_of_string (normPassphrase L passphrase) \<longrightarrow>
         Decrypt L (Some m) passphrase = Inl (Panic IVLengthNotBlockSize))) \<and>
   (decryptNorm L ks pw = Inl (Err InvalidIV) \<longrightarrow>
      (\<exists>c cp. Cipher ks = Some c \<and> ksCipher.Params c = Some cp \<and>
         hex_DecodeString (IV cp) = None))"
proof (intro conjI impI)
  assume a: "decryptionKey L ks pw = Inr key \<and> 32 \<le> length key \<and>
    Cipher ks = Some c \<and> hex_DecodeString (ksCipher.Message c) = Some ct \<and>
    Checksum ks = Some cks \<and> hex_DecodeString (ksChecksum.Message cks) = Some cs \<and>
    sha256_Sum L (take 16 (drop 16 key) @ ct) = cs \<and>
    ksCipher.Function c = ''aes-128-ctr'' \<and> ksCipher.Params c = Some cp \<and>
    hex_DecodeString (IV cp) = Some iv \<and> length iv \<noteq> 16"
  then have "decryptNorm L ks pw = decryptCipher L c key ct"
    using decryptNorm_verified [of L ks pw key c ct cks cs] by simp
  with a show p: "decryptNorm L ks pw = Inl (Panic IVLengthNotBlockSize)"
    by (simp add: decryptCipher_aes)
  assume "json_Marshal m = Some b \<and> json_Unmarshal b = Some ks \<and>
       pw = bytes_of_string (normPassphrase L passphrase)"
  with a p show "Decrypt L (Some m) passphrase = Inl (Panic IVLengthNotBlockSize)"
    using Decrypt_parsed [of m b ks L passphrase] by simp
next
  assume "decryptNorm L ks pw = Inl (Err InvalidIV)"
  then show "\<exists>c cp. Cipher ks = Some c \<and> ksCipher.Params c = Some cp \<and>
         hex_DecodeString (IV cp) = None"
    by (rule decryptNorm_InvalidIV)
qed

text \<open>
  An instance: the IV 0001 of two bytes, on the map without kdf whose checksum matches,
  with the passphrase of 32 letters a left as it is by the normalisation.
\<close>

theorem iv_length_panic_witness:
  "\<forall>L. decryptNorm L
          (record_without_kdf (hex_EncodeToString (digest_c0ffee L)) ''aes-128-ctr''
             (Some \<lparr>IV = ''0001''\<rparr>) ''c0ffee'')
          key_a32 = Inl (Panic IVLengthNotBlockSize) \<and>
       Decrypt (with_normalisations (\<lambda>s. s) (\<lambda>s. s) L)
          (Some (json_without_kdf (hex_EncodeToString (digest_c0ffee L)) ''aes-128-ctr''
                   (JObject [(''iv'', JString ''0001'')]) ''c0ffee''))
          passphrase_a32 = Inl (Panic IVLengthNotBlockSize)"
proof (intro allI)
  fix L
  let ?L = "with_normalisations (\<lambda>s. s) (\<lambda>s. s) L"
  let ?cm = "hex_EncodeToString (digest_c0ffee L)"
  let ?m = "json_without_kdf ?cm ''aes-128-ctr'' (JObject [(''iv'', JString ''0001'')]) ''c0ffee''"
  let ?cp = "\<lparr>IV = ''0001''\<rparr>"
  let ?ks = "record_without_kdf ?cm ''aes-128-ctr'' (Some ?cp) ''c0ffee''"
  let ?c = "\<lparr>ksCipher.Function = ''aes-128-ctr'', ksCipher.Params = Some ?cp,
    ksCipher.Message = ''c0ffee''\<rparr>"
  let ?k = "\<lparr>ksChecksum.Function = ''sha256'', ksChecksum.Params = Some [],
    ksChecksum.Message = ?cm\<rparr>"
  have h: "decryptionKey ?L ?ks key_a32 = Inr key_a32 \<and> 32 \<le> length key_a32 \<and>
    Cipher ?ks = Some ?c \<and> hex_DecodeString (ksCipher.Message ?c) = Some [0xc0, 0xff, 0xee] \<and>
    Checksum ?ks = Some ?k \<and> hex_DecodeString (ksChecksum.Message ?k) = Some (digest_c0ffee L) \<and>
    sha256_Sum ?L (take 16 (drop 16 key_a32) @ [0xc0, 0xff, 0xee]) = digest_c0ffee L \<and>
    ksCipher.Function ?c = ''aes-128-ctr'' \<and> ksCipher.Params ?c = Some ?cp \<and>
    hex_DecodeString (IV ?cp) = Some [0, 1] \<and> length [0, 1 :: byte] \<noteq> 16"
    by (simp add: record_without_kdf_simps key_a32_simps hex_c0ffee hex_iv2 hex_roundtrip
        digest_c0ffee_def with_normalisations_simps
        del: hex_DecodeString.simps hex_EncodeToString.simps)
  have j: "json_Marshal ?m = Some (members ?m) \<and> json_Unmarshal (members ?m) = Some ?ks \<and>
     key_a32 = bytes_of_string (normPassphrase ?L passphrase_a32)"
    by (simp add: parse_json_without_kdf with_normalisations_simps bytes_passphrase_a32)
  note inst = iv_length_panic [where ks = ?ks and L = ?L and pw = key_a32 and key = key_a32
      and c = ?c and ct = "[0xc0, 0xff, 0xee]" and cks = ?k and cs = "digest_c0ffee L"
      and cp = ?cp and iv = "[0, 1]" and m = ?m and b = "members ?m"
      and passphrase = passphrase_a32]
  from inst h j have d: "Decrypt ?L (Some ?m) passphrase_a32 = Inl (Panic IVLengthNotBlockSize)"
    by blast
  from inst h have "decryptNorm ?L ?ks key_a32 = Inl (Panic IVLengthNotBlockSize)"
    by blast
  moreover have "decryptNorm ?L ?ks key_a32 = decryptNorm L ?ks key_a32"
    by (rule decryptNorm_with_normalisations)
  ultimately show "decryptNorm L ?ks key_a32 = Inl (Panic IVLengthNotBlockSize) \<and>
      Decrypt ?L (Some ?m) passphrase_a32 = Inl (Panic IVLengthNotBlockSize)"
    using d by simp
qed

end
